theory Spec2Isabelle
  imports Complex_Main "HOL-Library.AList" "HOL-Library.Sublist"
begin

section \<open>Values of the JavaScript runtime\<close>

text \<open>
  The server is TypeScript; at run time every value typed \<open>any\<close> (a parsed
  WebSocket frame, the result of \<open>JSON.parse\<close> on a completion, an unvalidated payload
  field) is an arbitrary JavaScript value. Such values are modelled by \<open>jsval\<close>. A JSON
  number is modelled as an exact rational; the rounding of a numeral to a double is not
  modelled. An object is the list of its own properties in insertion order.
\<close>

datatype jsval =
    JUndefined
  | JNull
  | JBool bool
  | JNum rat
  | JStr string
  | JArr "jsval list"
  | JObj "(string \<times> jsval) list"

text \<open>
  Every value thrown in the server is an instance of \<open>Error\<close>; the constructor records
  its class, the argument is \<open>error.message\<close>. For errors raised by the runtime itself
  the message is the text V8 produces.
\<close>

datatype js_error =
    Error string
  | TypeError string
  | SyntaxError string
  | ZodError string

fun message_of :: "js_error \<Rightarrow> string" where
  "message_of (Error m) = m"
| "message_of (TypeError m) = m"
| "message_of (SyntaxError m) = m"
| "message_of (ZodError m) = m"

text \<open>Truthiness, as \<open>!v\<close>, \<open>v || d\<close> and \<open>if (v)\<close> read it.\<close>

fun truthy :: "jsval \<Rightarrow> bool" where
  "truthy JUndefined = False"
| "truthy JNull = False"
| "truthy (JBool b) = b"
| "truthy (JNum n) = (n \<noteq> 0)"
| "truthy (JStr s) = (s \<noteq> [])"
| "truthy (JArr xs) = True"
| "truthy (JObj kvs) = True"

text \<open>\<open>v || d\<close> on arbitrary values, and on a string that may be \<open>null\<close> or absent.\<close>

definition or_else :: "jsval \<Rightarrow> jsval \<Rightarrow> jsval" where
  "or_else v d = (if truthy v then v else d)"

definition str_or :: "string option \<Rightarrow> string \<Rightarrow> string" where
  "str_or v d = (case v of None \<Rightarrow> d | Some s \<Rightarrow> if s = [] then d else s)"

text \<open>
  The property read \<open>v.k\<close>. On \<open>null\<close> and \<open>undefined\<close> it throws a TypeError. The
  names the server reads (\<open>type\<close>, \<open>payload\<close>, \<open>content\<close>, \<open>attachment\<close>, \<open>customerId\<close>,
  \<open>settings\<close>, \<open>matches\<close>, \<open>confidence\<close>, \<open>answer\<close>, \<open>suggestions\<close>, \<open>needsHumanReview\<close>,
  \<open>summary\<close>) are properties of no prototype, so on a primitive or an array the read
  yields \<open>undefined\<close>, and on an object it yields the own property or \<open>undefined\<close>.
\<close>

fun property :: "jsval \<Rightarrow> string \<Rightarrow> js_error + jsval" where
  "property JUndefined k = Inl (TypeError (''Cannot read properties of undefined (reading '' @ k @ '')''))"
| "property JNull k = Inl (TypeError (''Cannot read properties of null (reading '' @ k @ '')''))"
| "property (JObj kvs) k = Inr (case map_of kvs k of None \<Rightarrow> JUndefined | Some v \<Rightarrow> v)"
| "property v k = Inr JUndefined"

text \<open>
  A string is modelled as a list of 8-bit characters: the UTF-8 encoding of the
  JavaScript string. Equality, emptiness, concatenation, \<open>includes\<close> and \<open>startsWith\<close>
  with an ASCII pattern read the encoding as they read the string.
\<close>

definition str_includes :: "string \<Rightarrow> string \<Rightarrow> bool" where
  "str_includes s p = sublist p s"

definition startsWith :: "string \<Rightarrow> string \<Rightarrow> bool" where
  "startsWith s p = prefix p s"

text \<open>
  Built-ins of the runtime whose algorithms are not part of the repository are
  parameters of the model: \<open>JSON.parse\<close> (\<open>None\<close> when it throws a SyntaxError), the
  conversion of a value that is not a string to a string (string concatenation, template
  literals), the conversion of a string to a number (\<open>None\<close> for NaN), and
  \<open>String.prototype.toLowerCase\<close> and \<open>String.prototype.trim\<close> on strings that are not
  pure ASCII (the Unicode case mapping and the Unicode white space).
\<close>

record runtime =
  JSON_parse :: "string \<Rightarrow> jsval option"
  ToString :: "jsval \<Rightarrow> string"
  StringToNumber :: "string \<Rightarrow> rat option"
  ToLowerCase :: "string \<Rightarrow> string"
  Trim :: "string \<Rightarrow> string"

text \<open>
  \<open>toLowerCase\<close> and \<open>trim\<close>. On a pure ASCII string they are computed: A to Z become
  a to z, and the white space is tab, line feed, vertical tab, form feed, carriage
  return and space. On any other string they are the runtime's.
\<close>

definition is_ascii :: "string \<Rightarrow> bool" where
  "is_ascii s = list_all (\<lambda>c. (of_char c :: nat) < 128) s"

definition lower_char :: "char \<Rightarrow> char" where
  "lower_char c =
     (let n = of_char c :: nat in if 65 \<le> n \<and> n \<le> 90 then char_of (n + 32) else c)"

definition toLowerCase :: "runtime \<Rightarrow> string \<Rightarrow> string" where
  "toLowerCase rt s = (if is_ascii s then map lower_char s else ToLowerCase rt s)"

definition is_space :: "char \<Rightarrow> bool" where
  "is_space c = (let n = of_char c :: nat in n = 32 \<or> (9 \<le> n \<and> n \<le> 13))"

definition trim :: "runtime \<Rightarrow> string \<Rightarrow> string" where
  "trim rt s =
     (if is_ascii s then rev (dropWhile is_space (rev (dropWhile is_space s)))
      else Trim rt s)"

definition to_string :: "runtime \<Rightarrow> jsval \<Rightarrow> string" where
  "to_string rt v = (case v of JStr s \<Rightarrow> s | _ \<Rightarrow> ToString rt v)"

text \<open>
  \<open>ToNumber\<close>, as the relational operators apply it (\<open>None\<close> is NaN). An array or an
  object is first converted to a primitive, which for values made by \<open>JSON.parse\<close> is its
  string conversion.
\<close>

definition to_number :: "runtime \<Rightarrow> jsval \<Rightarrow> rat option" where
  "to_number rt v =
     (case v of
        JUndefined \<Rightarrow> None
      | JNull \<Rightarrow> Some 0
      | JBool b \<Rightarrow> Some (if b then 1 else 0)
      | JNum n \<Rightarrow> Some n
      | JStr s \<Rightarrow> StringToNumber rt s
      | _ \<Rightarrow> StringToNumber rt (ToString rt v))"

text \<open>\<open>v > c\<close> for a numeric literal \<open>c\<close>: false when \<open>v\<close> converts to NaN.\<close>

definition js_gt :: "runtime \<Rightarrow> jsval \<Rightarrow> rat \<Rightarrow> bool" where
  "js_gt rt v c = (case to_number rt v of None \<Rightarrow> False | Some n \<Rightarrow> c < n)"

section \<open>The data model (shared/schema)\<close>

text \<open>
  Fields hold the values the declared column types allow; a field the server fills from
  an unvalidated \<open>any\<close> is a \<open>jsval\<close>. A nullable text column is a \<open>string option\<close>
  (\<open>None\<close> is \<open>null\<close>). Identifiers and timestamps (milliseconds) are integers.
\<close>

record Conversation =
  c_id :: int
  c_customerId :: jsval
  c_status :: string
  c_language :: "string option"
  c_summary :: "string option"
  c_contextMemory :: jsval
  c_settings :: jsval

record InsertConversation =
  ic_customerId :: jsval
  ic_status :: "string option"
  ic_language :: "string option"
  ic_settings :: jsval

text \<open>\<open>Partial<Conversation>\<close>: \<open>None\<close> is an absent key, \<open>Some v\<close> a key with value \<open>v\<close>.\<close>

record PartialConversation =
  pc_id :: "int option"
  pc_customerId :: "jsval option"
  pc_status :: "string option"
  pc_language :: "string option option"
  pc_summary :: "string option option"
  pc_contextMemory :: "jsval option"
  pc_settings :: "jsval option"

record Message =
  m_id :: int
  m_conversationId :: int
  m_content :: jsval
  m_role :: string
  m_timestamp :: int
  m_language :: string
  m_sentiment :: "string option"
  m_attachment :: jsval
  m_suggestions :: jsval
  m_needsHumanReview :: jsval

record InsertMessage =
  im_conversationId :: int
  im_content :: jsval
  im_role :: string
  im_language :: "string option"
  im_attachment :: jsval
  im_suggestions :: jsval
  im_needsHumanReview :: jsval

record FAQ =
  f_id :: int
  f_question :: string
  f_answer :: string
  f_enabled :: bool
  f_language :: "string option"
  f_category :: "string option"

text \<open>
  \<open>InsertFAQ\<close> is inferred from \<open>insertFaqSchema\<close>, which picks exactly \<open>question\<close>,
  \<open>answer\<close>, \<open>language\<close> and \<open>category\<close>: it has no \<open>enabled\<close> and no \<open>id\<close>.
\<close>

record InsertFAQ =
  if_question :: string
  if_answer :: string
  if_language :: "string option"
  if_category :: "string option"

record PartialInsertFAQ =
  pf_question :: "string option"
  pf_answer :: "string option"
  pf_language :: "string option option"
  pf_category :: "string option option"

record CrmData =
  crm_id :: int
  crm_customerId :: string
  crm_name :: string
  crm_email :: string
  crm_details :: jsval
  crm_preferredLanguage :: "string option"

record InsertCrmData =
  icrm_customerId :: string
  icrm_name :: string
  icrm_email :: string
  icrm_details :: jsval
  icrm_preferredLanguage :: "string option"

record PopularSearch =
  ps_query :: string
  ps_count :: int
  ps_timestamp :: int

section \<open>The store (server/storage.ts)\<close>

text \<open>
  A JavaScript \<open>Map\<close> iterates in insertion order and \<open>set\<close> on an existing key keeps
  the key's position: an association list with \<open>AList.update\<close> (replace in place, else
  append), \<open>AList.delete\<close> and \<open>map_of\<close>. Every method returns its result together with
  the store it leaves; a method that throws returns \<open>Inl\<close> of the error.
\<close>

record CurrentIds =
  id_conversation :: int
  id_message :: int
  id_faq :: int
  id_crm :: int

record MemStorage =
  conversations :: "(int \<times> Conversation) list"
  messages :: "(int \<times> Message) list"
  faqs :: "(int \<times> FAQ) list"
  crmData :: "(string \<times> CrmData) list"
  popularSearches :: "PopularSearch list"
  currentIds :: CurrentIds

definition MemStorage_new :: MemStorage where
  "MemStorage_new =
     \<lparr>conversations = [], messages = [], faqs = [], crmData = [], popularSearches = [],
      currentIds = \<lparr>id_conversation = 1, id_message = 1, id_faq = 1, id_crm = 1\<rparr>\<rparr>"

definition createConversation :: "MemStorage \<Rightarrow> InsertConversation \<Rightarrow> Conversation \<times> MemStorage" where
  "createConversation s d =
     (let i = id_conversation (currentIds s);
          conversation =
            \<lparr>c_id = i,
             c_customerId = ic_customerId d,
             c_status = str_or (ic_status d) ''active'',
             c_language = Some (str_or (ic_language d) ''en''),
             c_summary = None,
             c_contextMemory = JObj [],
             c_settings = or_else (ic_settings d) (JObj [])\<rparr>
      in (conversation,
          s\<lparr>conversations := AList.update i conversation (conversations s),
            currentIds := (currentIds s)\<lparr>id_conversation := i + 1\<rparr>\<rparr>))"

definition getConversation :: "MemStorage \<Rightarrow> int \<Rightarrow> Conversation option" where
  "getConversation s i = map_of (conversations s) i"

text \<open>\<open>{ ...conversation, ...data }\<close>: every key present in \<open>data\<close> replaces the field.\<close>

definition merge_conversation :: "Conversation \<Rightarrow> PartialConversation \<Rightarrow> Conversation" where
  "merge_conversation c p =
     \<lparr>c_id = (case pc_id p of None \<Rightarrow> c_id c | Some v \<Rightarrow> v),
      c_customerId = (case pc_customerId p of None \<Rightarrow> c_customerId c | Some v \<Rightarrow> v),
      c_status = (case pc_status p of None \<Rightarrow> c_status c | Some v \<Rightarrow> v),
      c_language = (case pc_language p of None \<Rightarrow> c_language c | Some v \<Rightarrow> v),
      c_summary = (case pc_summary p of None \<Rightarrow> c_summary c | Some v \<Rightarrow> v),
      c_contextMemory = (case pc_contextMemory p of None \<Rightarrow> c_contextMemory c | Some v \<Rightarrow> v),
      c_settings = (case pc_settings p of None \<Rightarrow> c_settings c | Some v \<Rightarrow> v)\<rparr>"

definition updateConversation ::
  "MemStorage \<Rightarrow> int \<Rightarrow> PartialConversation \<Rightarrow> (js_error + Conversation) \<times> MemStorage" where
  "updateConversation s i d =
     (case map_of (conversations s) i of
        None \<Rightarrow> (Inl (Error ''Conversation not found''), s)
      | Some conversation \<Rightarrow>
          (let updated = merge_conversation conversation d
           in (Inr updated, s\<lparr>conversations := AList.update i updated (conversations s)\<rparr>)))"

text \<open>\<open>now\<close> is the clock reading of \<open>new Date()\<close>.\<close>

definition createMessage :: "MemStorage \<Rightarrow> InsertMessage \<Rightarrow> int \<Rightarrow> Message \<times> MemStorage" where
  "createMessage s d now =
     (let i = id_message (currentIds s);
          message =
            \<lparr>m_id = i,
             m_conversationId = im_conversationId d,
             m_content = im_content d,
             m_role = im_role d,
             m_timestamp = now,
             m_language = str_or (im_language d) ''en'',
             m_sentiment = None,
             m_attachment = or_else (im_attachment d) JNull,
             m_suggestions = or_else (im_suggestions d) JNull,
             m_needsHumanReview = or_else (im_needsHumanReview d) (JBool False)\<rparr>
      in (message,
          s\<lparr>messages := AList.update i message (messages s),
            currentIds := (currentIds s)\<lparr>id_message := i + 1\<rparr>\<rparr>))"

definition getMessages :: "MemStorage \<Rightarrow> int \<Rightarrow> Message list" where
  "getMessages s conversationId =
     filter (\<lambda>m. m_conversationId m = conversationId) (map snd (messages s))"

definition createFAQ :: "MemStorage \<Rightarrow> InsertFAQ \<Rightarrow> FAQ \<times> MemStorage" where
  "createFAQ s d =
     (let i = id_faq (currentIds s);
          faq =
            \<lparr>f_id = i,
             f_question = if_question d,
             f_answer = if_answer d,
             f_enabled = True,
             f_language = Some (str_or (if_language d) ''en''),
             f_category = (case if_category d of None \<Rightarrow> None
                           | Some c \<Rightarrow> if c = [] then None else Some c)\<rparr>
      in (faq,
          s\<lparr>faqs := AList.update i faq (faqs s),
            currentIds := (currentIds s)\<lparr>id_faq := i + 1\<rparr>\<rparr>))"

definition lang_matches :: "string option \<Rightarrow> string \<Rightarrow> bool" where
  "lang_matches fl l = (case fl of None \<Rightarrow> True | Some x \<Rightarrow> x = [] \<or> x = l)"

definition getFAQs :: "MemStorage \<Rightarrow> string option \<Rightarrow> FAQ list" where
  "getFAQs s language =
     (let fs = map snd (faqs s)
      in case language of
           None \<Rightarrow> fs
         | Some l \<Rightarrow> if l = [] then fs else filter (\<lambda>faq. lang_matches (f_language faq) l) fs)"

definition merge_faq :: "FAQ \<Rightarrow> PartialInsertFAQ \<Rightarrow> FAQ" where
  "merge_faq f p =
     \<lparr>f_id = f_id f,
      f_question = (case pf_question p of None \<Rightarrow> f_question f | Some v \<Rightarrow> v),
      f_answer = (case pf_answer p of None \<Rightarrow> f_answer f | Some v \<Rightarrow> v),
      f_enabled = f_enabled f,
      f_language = (case pf_language p of None \<Rightarrow> f_language f | Some v \<Rightarrow> v),
      f_category = (case pf_category p of None \<Rightarrow> f_category f | Some v \<Rightarrow> v)\<rparr>"

definition updateFAQ ::
  "MemStorage \<Rightarrow> int \<Rightarrow> PartialInsertFAQ \<Rightarrow> (js_error + FAQ) \<times> MemStorage" where
  "updateFAQ s i d =
     (case map_of (faqs s) i of
        None \<Rightarrow> (Inl (Error ''FAQ not found''), s)
      | Some faq \<Rightarrow>
          (let updated = merge_faq faq d
           in (Inr updated, s\<lparr>faqs := AList.update i updated (faqs s)\<rparr>)))"

definition deleteFAQ :: "MemStorage \<Rightarrow> int \<Rightarrow> MemStorage" where
  "deleteFAQ s i = s\<lparr>faqs := AList.delete i (faqs s)\<rparr>"

definition getCrmData :: "MemStorage \<Rightarrow> string \<Rightarrow> CrmData option" where
  "getCrmData s customerId = map_of (crmData s) customerId"

definition createCrmData :: "MemStorage \<Rightarrow> InsertCrmData \<Rightarrow> CrmData \<times> MemStorage" where
  "createCrmData s d =
     (let i = id_crm (currentIds s);
          crm =
            \<lparr>crm_id = i,
             crm_customerId = icrm_customerId d,
             crm_name = icrm_name d,
             crm_email = icrm_email d,
             crm_details = icrm_details d,
             crm_preferredLanguage = Some (str_or (icrm_preferredLanguage d) ''en'')\<rparr>
      in (crm,
          s\<lparr>crmData := AList.update (icrm_customerId d) crm (crmData s),
            currentIds := (currentIds s)\<lparr>id_crm := i + 1\<rparr>\<rparr>))"

text \<open>
  \<open>trackSearch\<close> reads the clock twice: \<open>now\<close> is \<open>new Date()\<close> in the branch taken,
  \<open>now'\<close> is the later \<open>Date.now()\<close> of the eviction. \<open>find\<close> returns the first matching
  entry, which is then changed in place, so it keeps its position.
\<close>

text \<open>\<open>s.query.toLowerCase() === query.toLowerCase()\<close>.\<close>

definition same_query :: "runtime \<Rightarrow> string \<Rightarrow> PopularSearch \<Rightarrow> bool" where
  "same_query rt q e = (toLowerCase rt (ps_query e) = toLowerCase rt q)"

definition day_ms :: int where
  "day_ms = 24 * 60 * 60 * 1000"

definition trackSearch :: "runtime \<Rightarrow> MemStorage \<Rightarrow> string \<Rightarrow> int \<Rightarrow> int \<Rightarrow> MemStorage" where
  "trackSearch rt s q now now' =
     (let counted =
            (case List.extract (same_query rt q) (popularSearches s) of
               Some (before, existingSearch, after) \<Rightarrow>
                 before
                 @ existingSearch\<lparr>ps_count := ps_count existingSearch + 1, ps_timestamp := now\<rparr>
                 # after
             | None \<Rightarrow>
                 popularSearches s @ [\<lparr>ps_query = q, ps_count = 1, ps_timestamp = now\<rparr>]);
          oneDayAgo = now' - day_ms
      in s\<lparr>popularSearches := filter (\<lambda>e. oneDayAgo < ps_timestamp e) counted\<rparr>)"

text \<open>
  \<open>Array.prototype.sort\<close> sorts the stored array itself, stably; \<open>slice(0, limit)\<close>
  counts a negative end from the end of the array. \<open>None\<close> is an omitted limit
  (the default 5); a limit that is NaN is not a value of the model.
\<close>

definition slice0 :: "'a list \<Rightarrow> int \<Rightarrow> 'a list" where
  "slice0 xs e = (if e < 0 then take (nat (int (length xs) + e)) xs else take (nat e) xs)"

definition getPopularSearches ::
  "MemStorage \<Rightarrow> int option \<Rightarrow> (string \<times> int) list \<times> MemStorage" where
  "getPopularSearches s limit =
     (let sorted = sort_key (\<lambda>e. - ps_count e) (popularSearches s)
      in (map (\<lambda>e. (ps_query e, ps_count e))
            (slice0 sorted (case limit of None \<Rightarrow> 5 | Some l \<Rightarrow> l)),
          s\<lparr>popularSearches := sorted\<rparr>))"

text \<open>The exported singleton: a fresh store with the mock CRM record and two FAQs.\<close>

definition storage :: MemStorage where
  "storage =
     (let s1 = snd (createCrmData MemStorage_new
                 \<lparr>icrm_customerId = ''CUST001'', icrm_name = ''John Doe'',
                  icrm_email = ''john@example.com'',
                  icrm_details = JObj [(''plan'', JStr ''Premium''),
                                       (''signupDate'', JStr ''2024-01-15''),
                                       (''lastPurchase'', JStr ''2024-03-20'')],
                  icrm_preferredLanguage = Some ''en''\<rparr>);
          s2 = snd (createFAQ s1
                 \<lparr>if_question = ''How do I reset my password?'',
                  if_answer = ''You can reset your password by clicking the 'Forgot Password' link on the login page and following the instructions sent to your email.'',
                  if_language = Some ''en'', if_category = Some ''account''\<rparr>);
          s3 = snd (createFAQ s2
                 \<lparr>if_question = ''What payment methods do you accept?'',
                  if_answer = ''We accept all major credit cards (Visa, MasterCard, American Express), PayPal, and bank transfers.'',
                  if_language = Some ''en'', if_category = Some ''billing''\<rparr>)
      in s3)"

section \<open>The completion gateway (server/lib/openai.ts)\<close>

text \<open>
  A call of the hosted model either throws or yields \<open>response.choices[0].message.content\<close>,
  a string or \<open>null\<close> (\<open>None\<close>). \<open>Throws\<close> stands for a rejected request as well as for
  the TypeError of reading a response without choices: both are raised inside the same
  \<open>try\<close> block. The model is outside the repository: each call site is a function of the
  data the prompt is built from, and every theorem holds for all such functions. The
  sampling parameters (\<open>modelConfig\<close>) only travel to the service and are left out.
\<close>

datatype completion = Throws js_error | Content "string option"

record ChatMessage =
  cm_role :: string
  cm_content :: jsval

record gateway =
  detect_call :: "jsval \<Rightarrow> completion"
  faq_call :: "FAQ list \<Rightarrow> jsval \<Rightarrow> completion"
  reply_call :: "string \<Rightarrow> jsval \<Rightarrow> ChatMessage list \<Rightarrow> completion"
  suggest_call :: "string \<Rightarrow> completion"
  summary_call :: "ChatMessage list \<Rightarrow> completion"

datatype source = Faq | Ai

record ChatResponse =
  r_content :: jsval
  r_source :: source
  r_confidence :: jsval
  r_language :: string
  r_suggestions :: jsval
  r_needsHumanReview :: jsval

text \<open>
  \<open>v?.k\<close>, and \<open>v.k\<close> where \<open>v\<close> is already known not to be \<open>null\<close> or \<open>undefined\<close>.
\<close>

definition opt_property :: "jsval \<Rightarrow> string \<Rightarrow> jsval" where
  "opt_property v k = (case property v k of Inl e \<Rightarrow> JUndefined | Inr x \<Rightarrow> x)"

definition detectLanguage :: "runtime \<Rightarrow> gateway \<Rightarrow> jsval \<Rightarrow> string" where
  "detectLanguage rt gw text =
     (case detect_call gw text of
        Throws e \<Rightarrow> ''en''
      | Content c \<Rightarrow>
          (case c of
             None \<Rightarrow> ''en''
           | Some s \<Rightarrow> (let l = toLowerCase rt (trim rt s) in if l = [] then ''en'' else l)))"

definition summarizeConversation :: "gateway \<Rightarrow> ChatMessage list \<Rightarrow> string" where
  "summarizeConversation gw msgs =
     (case summary_call gw msgs of
        Throws e \<Rightarrow> []
      | Content c \<Rightarrow> (case c of None \<Rightarrow> [] | Some s \<Rightarrow> s))"

text \<open>\<open>updateConversationContext\<close> returns the object \<open>{ summary }\<close>.\<close>

definition updateConversationContext :: "gateway \<Rightarrow> ChatMessage list \<Rightarrow> jsval" where
  "updateConversationContext gw msgs = JObj [(''summary'', JStr (summarizeConversation gw msgs))]"

definition empty_response :: js_error where
  "empty_response = Error ''Azure OpenAI returned empty response''"

text \<open>
  The body of the inner \<open>try\<close> of \<open>generateResponse\<close> (the FAQ match): \<open>Inr (Some r)\<close> is
  its \<open>return\<close>, \<open>Inr None\<close> is falling through the \<open>if\<close>, \<open>Inl\<close> is a throw.
\<close>

definition faq_try ::
  "runtime \<Rightarrow> gateway \<Rightarrow> FAQ list \<Rightarrow> jsval \<Rightarrow> string \<Rightarrow> js_error + ChatResponse option" where
  "faq_try rt gw languageFilteredFaqs userMessage detectedLanguage =
     (case faq_call gw languageFilteredFaqs userMessage of
        Throws e \<Rightarrow> Inl e
      | Content c \<Rightarrow>
          (case c of
             None \<Rightarrow> Inl empty_response
           | Some responseContent \<Rightarrow>
               if responseContent = [] then Inl empty_response
               else
                 (case JSON_parse rt responseContent of
                    None \<Rightarrow> Inl (SyntaxError ''Unexpected token in JSON'')
                  | Some result \<Rightarrow>
                      (case property result ''matches'' of
                         Inl e \<Rightarrow> Inl e
                       | Inr matches \<Rightarrow>
                           if truthy matches \<and> js_gt rt (opt_property result ''confidence'') (8 / 10)
                           then Inr (Some
                                  \<lparr>r_content = opt_property result ''answer'',
                                   r_source = Faq,
                                   r_confidence = opt_property result ''confidence'',
                                   r_language = detectedLanguage,
                                   r_suggestions = opt_property result ''suggestions'',
                                   r_needsHumanReview = opt_property result ''needsHumanReview''\<rparr>)
                           else Inr None))))"

text \<open>
  The rest of \<open>generateResponse\<close> after the FAQ match: the free-form reply and its
  follow-up suggestions. Every throw here reaches the outer \<open>catch\<close>, which logs and
  rethrows.
\<close>

definition generateReply ::
  "runtime \<Rightarrow> gateway \<Rightarrow> ChatMessage list \<Rightarrow> jsval \<Rightarrow> string \<Rightarrow> js_error + ChatResponse" where
  "generateReply rt gw msgs contextMemory detectedLanguage =
     (case reply_call gw detectedLanguage
             (or_else (opt_property contextMemory ''summary'') (JStr ''No previous context'')) msgs of
        Throws e \<Rightarrow> Inl e
      | Content c \<Rightarrow>
          (case c of
             None \<Rightarrow> Inl empty_response
           | Some responseContent \<Rightarrow>
               if responseContent = [] then Inl empty_response
               else
                 (case suggest_call gw responseContent of
                    Throws e \<Rightarrow> Inl e
                  | Content sc \<Rightarrow>
                      (case JSON_parse rt (str_or sc ''[]'') of
                         None \<Rightarrow> Inl (SyntaxError ''Unexpected token in JSON'')
                       | Some suggestions \<Rightarrow>
                           (case property suggestions ''suggestions'' of
                              Inl e \<Rightarrow> Inl e
                            | Inr v \<Rightarrow>
                                Inr \<lparr>r_content = JStr responseContent,
                                     r_source = Ai,
                                     r_confidence = JUndefined,
                                     r_language = detectedLanguage,
                                     r_suggestions = or_else v (JArr []),
                                     r_needsHumanReview =
                                       JBool (str_includes (toLowerCase rt responseContent) ''human'')\<rparr>)))))"

text \<open>
  \<open>generateResponse\<close>. Reading \<open>messages[messages.length - 1].content\<close> of an empty
  history throws. The \<open>language\<close> argument is not read by the body.
\<close>

definition generateResponse ::
  "runtime \<Rightarrow> gateway \<Rightarrow> ChatMessage list \<Rightarrow> FAQ list \<Rightarrow> jsval \<Rightarrow> string \<Rightarrow> js_error + ChatResponse" where
  "generateResponse rt gw msgs faqList contextMemory language =
     (if msgs = [] then Inl (TypeError ''Cannot read properties of undefined (reading content)'')
      else
        (let userMessage = cm_content (last msgs);
             detectedLanguage = detectLanguage rt gw userMessage;
             languageFilteredFaqs =
               filter (\<lambda>faq. lang_matches (f_language faq) detectedLanguage) faqList;
             fromFaq =
               (if cm_role (last msgs) = ''user''
                then (case faq_try rt gw languageFilteredFaqs userMessage detectedLanguage of
                        Inl e \<Rightarrow> None
                      | Inr r \<Rightarrow> r)
                else None)
         in case fromFaq of
              Some r \<Rightarrow> Inr r
            | None \<Rightarrow> generateReply rt gw msgs contextMemory detectedLanguage))"

text \<open>
  The completion that the FAQ match of \<open>generateResponse\<close> receives, and the language
  it detected before.
\<close>

definition detected :: "runtime \<Rightarrow> gateway \<Rightarrow> ChatMessage list \<Rightarrow> string" where
  "detected rt gw msgs = detectLanguage rt gw (cm_content (last msgs))"

definition faq_outcome ::
  "runtime \<Rightarrow> gateway \<Rightarrow> ChatMessage list \<Rightarrow> FAQ list \<Rightarrow> completion" where
  "faq_outcome rt gw msgs faqList =
     faq_call gw (filter (\<lambda>faq. lang_matches (f_language faq) (detected rt gw msgs)) faqList)
       (cm_content (last msgs))"

text \<open>
  The condition of the specification on that completion: the FAQ match returned a
  result (a non-empty text that parses) whose match flag holds and whose confidence
  exceeds 0.8, both read as JavaScript reads them.
\<close>

definition faq_accepted :: "runtime \<Rightarrow> completion \<Rightarrow> bool" where
  "faq_accepted rt out =
     (case out of
        Throws e \<Rightarrow> False
      | Content c \<Rightarrow>
          (case c of
             None \<Rightarrow> False
           | Some text \<Rightarrow>
               text \<noteq> [] \<and>
               (case JSON_parse rt text of
                  None \<Rightarrow> False
                | Some result \<Rightarrow>
                    truthy (opt_property result ''matches'')
                    \<and> js_gt rt (opt_property result ''confidence'') (8 / 10))))"

section \<open>The HTTP API (server/routes.ts)\<close>

text \<open>
  \<open>insertFaqSchema\<close> is a zod object schema: \<open>question\<close> and \<open>answer\<close> are required
  strings, \<open>language\<close> and \<open>category\<close> are optional nullable strings, and keys outside the
  schema are stripped. \<open>None\<close> is a ZodError. For an optional key the inner \<open>None\<close> is an
  absent key.
\<close>

definition field :: "(string \<times> jsval) list \<Rightarrow> string \<Rightarrow> jsval" where
  "field kvs k = (case map_of kvs k of None \<Rightarrow> JUndefined | Some v \<Rightarrow> v)"

fun zod_string :: "jsval \<Rightarrow> string option" where
  "zod_string (JStr s) = Some s"
| "zod_string v = None"

fun zod_optional_string :: "jsval \<Rightarrow> string option option" where
  "zod_optional_string JUndefined = Some None"
| "zod_optional_string (JStr s) = Some (Some s)"
| "zod_optional_string v = None"

fun zod_nullish_string :: "jsval \<Rightarrow> string option option option" where
  "zod_nullish_string JUndefined = Some None"
| "zod_nullish_string JNull = Some (Some None)"
| "zod_nullish_string (JStr s) = Some (Some (Some s))"
| "zod_nullish_string v = None"

definition insertFaqSchema_parse :: "jsval \<Rightarrow> js_error + InsertFAQ" where
  "insertFaqSchema_parse body =
     (case body of
        JObj kvs \<Rightarrow>
          (case (zod_string (field kvs ''question''), zod_string (field kvs ''answer''),
                 zod_nullish_string (field kvs ''language''),
                 zod_nullish_string (field kvs ''category'')) of
             (Some q, Some a, Some l, Some c) \<Rightarrow>
               Inr \<lparr>if_question = q, if_answer = a,
                    if_language = (case l of None \<Rightarrow> None | Some x \<Rightarrow> x),
                    if_category = (case c of None \<Rightarrow> None | Some x \<Rightarrow> x)\<rparr>
           | _ \<Rightarrow> Inl (ZodError ''Invalid input''))
      | _ \<Rightarrow> Inl (ZodError ''Expected object''))"

definition insertFaqSchema_partial_parse :: "jsval \<Rightarrow> js_error + PartialInsertFAQ" where
  "insertFaqSchema_partial_parse body =
     (case body of
        JObj kvs \<Rightarrow>
          (case (zod_optional_string (field kvs ''question''),
                 zod_optional_string (field kvs ''answer''),
                 zod_nullish_string (field kvs ''language''),
                 zod_nullish_string (field kvs ''category'')) of
             (Some q, Some a, Some l, Some c) \<Rightarrow>
               Inr \<lparr>pf_question = q, pf_answer = a, pf_language = l, pf_category = c\<rparr>
           | _ \<Rightarrow> Inl (ZodError ''Invalid input''))
      | _ \<Rightarrow> Inl (ZodError ''Expected object''))"

datatype body =
    JsonFaq FAQ
  | JsonCrm CrmData
  | JsonError string
  | JsonMessage string
  | NoBody

record response =
  status :: nat
  payload :: body

text \<open>
  \<open>id_param\<close> is \<open>parseInt(req.params.id)\<close>, \<open>None\<close> for NaN, which \<open>z.number()\<close>
  rejects. Each handler is its \<open>try\<close> block followed by its \<open>catch\<close>.
\<close>

definition post_faq :: "MemStorage \<Rightarrow> jsval \<Rightarrow> response \<times> MemStorage" where
  "post_faq s req_body =
     (case insertFaqSchema_parse req_body of
        Inl e \<Rightarrow> (\<lparr>status = 400, payload = JsonError ''Invalid FAQ data''\<rparr>, s)
      | Inr d \<Rightarrow>
          (let (faq, s') = createFAQ s d in (\<lparr>status = 200, payload = JsonFaq faq\<rparr>, s')))"

definition patch_faq :: "MemStorage \<Rightarrow> int option \<Rightarrow> jsval \<Rightarrow> response \<times> MemStorage" where
  "patch_faq s id_param req_body =
     (let failed = \<lparr>status = 400, payload = JsonError ''Invalid FAQ update data''\<rparr>
      in case id_param of
           None \<Rightarrow> (failed, s)
         | Some i \<Rightarrow>
             (case insertFaqSchema_partial_parse req_body of
                Inl e \<Rightarrow> (failed, s)
              | Inr d \<Rightarrow>
                  (case updateFAQ s i d of
                     (Inl e, s') \<Rightarrow> (failed, s')
                   | (Inr faq, s') \<Rightarrow> (\<lparr>status = 200, payload = JsonFaq faq\<rparr>, s'))))"

definition delete_faq :: "MemStorage \<Rightarrow> int option \<Rightarrow> response \<times> MemStorage" where
  "delete_faq s id_param =
     (case id_param of
        None \<Rightarrow> (\<lparr>status = 400, payload = JsonError ''Invalid FAQ ID''\<rparr>, s)
      | Some i \<Rightarrow> (\<lparr>status = 204, payload = NoBody\<rparr>, deleteFAQ s i))"

definition get_crm :: "MemStorage \<Rightarrow> string \<Rightarrow> response \<times> MemStorage" where
  "get_crm s customerId =
     (case getCrmData s customerId of
        None \<Rightarrow> (\<lparr>status = 404, payload = JsonMessage ''Customer not found''\<rparr>, s)
      | Some d \<Rightarrow> (\<lparr>status = 200, payload = JsonCrm d\<rparr>, s))"

section \<open>The session protocol handler (server/routes.ts)\<close>

text \<open>
  The state of one connection is the pair of closure variables \<open>conversationId\<close> and
  \<open>contextMemory\<close>, both \<open>null\<close> when the connection opens. Handling a frame returns the
  new connection state, the new store and the events sent on the socket, in order;
  \<open>ws.send\<close> is taken to succeed. Both outbound kinds of type \<open>message\<close> are
  \<open>MessageEvent\<close>: the echo of the user message carries no reply data.
\<close>

record channel =
  conversationId :: "int option"
  contextMemory :: jsval

definition channel_open :: channel where
  "channel_open = \<lparr>conversationId = None, contextMemory = JNull\<rparr>"

record ReplyData =
  rd_source :: source
  rd_confidence :: jsval
  rd_suggestions :: jsval
  rd_needsHumanReview :: jsval

datatype outbound =
    ConversationStarted int "Message list" jsval
  | MessageEvent Message "ReplyData option"
  | Typing
  | StopTyping
  | SettingsUpdated jsval
  | ErrorEvent string

definition handleWebSocketError :: "js_error \<Rightarrow> outbound list" where
  "handleWebSocketError e = [ErrorEvent (message_of e)]"

definition no_conversation :: js_error where
  "no_conversation = Error ''No active conversation''"

definition welcome_text :: string where
  "welcome_text = ''Hello! I'm your AI assistant, ready to help you with any questions or concerns you may have. How can I assist you today?''"

definition start_error :: "js_error \<Rightarrow> outbound list" where
  "start_error e =
     (if str_includes (message_of e) ''deployment'' \<or> str_includes (message_of e) ''404''
      then handleWebSocketError
             (Error ''Azure OpenAI deployment configuration error. Please verify deployment settings.'')
      else handleWebSocketError e)"

definition start_conversation ::
  "int \<Rightarrow> channel \<Rightarrow> MemStorage \<Rightarrow> jsval \<Rightarrow> channel \<times> MemStorage \<times> outbound list" where
  "start_conversation now st s msg =
     (case property msg ''payload'' of
        Inl e \<Rightarrow> (st, s, start_error e)
      | Inr pl \<Rightarrow>
          (case property pl ''customerId'' of
             Inl e \<Rightarrow> (st, s, start_error e)
           | Inr customerId \<Rightarrow>
               (let crm = (case customerId of JStr cid \<Rightarrow> getCrmData s cid | _ \<Rightarrow> None);
                    lang = str_or (case crm of None \<Rightarrow> None | Some d \<Rightarrow> crm_preferredLanguage d) ''en'';
                    (conversation, s1) =
                      createConversation s
                        \<lparr>ic_customerId = customerId, ic_status = Some ''active'',
                         ic_language = Some lang,
                         ic_settings = or_else (opt_property pl ''settings'') (JObj [])\<rparr>;
                    (welcomeMessage, s2) =
                      createMessage s1
                        \<lparr>im_conversationId = c_id conversation, im_content = JStr welcome_text,
                         im_role = ''assistant'', im_language = Some lang,
                         im_attachment = JUndefined, im_suggestions = JUndefined,
                         im_needsHumanReview = JUndefined\<rparr> now
                in (st\<lparr>conversationId := Some (c_id conversation)\<rparr>, s2,
                    [ConversationStarted (c_id conversation) [welcomeMessage]
                       (c_settings conversation)]))))"

text \<open>
  The text of an inbound message: \<open>payload.content || ""\<close>, with the annotation of an
  attachment appended. Reading \<open>attachment.type.startsWith\<close> throws unless the type is a
  string. 
\<close>

definition message_content :: "runtime \<Rightarrow> jsval \<Rightarrow> js_error + jsval" where
  "message_content rt pl =
     (case property pl ''content'' of
        Inl e \<Rightarrow> Inl e
      | Inr c \<Rightarrow>
          (let content = or_else c (JStr []);
               attachment = opt_property pl ''attachment''
           in if truthy attachment
              then (case opt_property attachment ''type'' of
                      JStr ty \<Rightarrow>
                        if startsWith ty ''image/''
                        then Inr (JStr (to_string rt content @ CHR 0x0A # ''[Image attached]''))
                        else if ty = ''application/pdf''
                        then Inr (JStr (to_string rt content @ CHR 0x0A # ''[PDF document attached]''))
                        else Inr content
                    | _ \<Rightarrow> Inl (TypeError ''attachment.type.startsWith is not a function''))
              else Inr content))"

definition chat_of :: "Message \<Rightarrow> ChatMessage" where
  "chat_of m = \<lparr>cm_role = m_role m, cm_content = m_content m\<rparr>"

definition inbound_message :: "int \<Rightarrow> string \<Rightarrow> jsval \<Rightarrow> InsertMessage" where
  "inbound_message cid text pl =
     \<lparr>im_conversationId = cid, im_content = JStr text, im_role = ''user'', im_language = None,
      im_attachment = opt_property pl ''attachment'', im_suggestions = JUndefined,
      im_needsHumanReview = JUndefined\<rparr>"

text \<open>
  The \<open>message\<close> case. \<open>now_in\<close> and \<open>now_out\<close> are the clock readings when the user
  message and the assistant message are persisted. \<open>insertMessageSchema.parse\<close> accepts
  the object built here exactly when its content is a string; \<open>inbound_message\<close> is
  the validated object with the attachment added.
\<close>

definition handle_message ::
  "runtime \<Rightarrow> gateway \<Rightarrow> int \<Rightarrow> int \<Rightarrow> channel \<Rightarrow> MemStorage \<Rightarrow> jsval
     \<Rightarrow> channel \<times> MemStorage \<times> outbound list" where
  "handle_message rt gw now_in now_out st s msg =
     (case conversationId st of
        None \<Rightarrow> (st, s, handleWebSocketError no_conversation)
      | Some cid \<Rightarrow>
          if cid = 0 then (st, s, handleWebSocketError no_conversation)
          else
            (case property msg ''payload'' of
               Inl e \<Rightarrow> (st, s, handleWebSocketError e)
             | Inr pl \<Rightarrow>
                 (case message_content rt pl of
                    Inl e \<Rightarrow> (st, s, handleWebSocketError e)
                  | Inr content \<Rightarrow>
                      (case content of
                         JStr text \<Rightarrow>
                           (let (userMessage, s1) =
                                  createMessage s (inbound_message cid text pl) now_in;
                                sent = [MessageEvent userMessage None, Typing];
                                history = map chat_of (getMessages s1 cid);
                                faqList = getFAQs s1 None;
                                memory = updateConversationContext gw history;
                                st1 = st\<lparr>contextMemory := memory\<rparr>
                            in case generateResponse rt gw history faqList memory
                                      (m_language userMessage) of
                                 Inl e \<Rightarrow> (st1, s1, sent @ handleWebSocketError e)
                               | Inr response \<Rightarrow>
                                   (let (aiMessage, s2) =
                                          createMessage s1
                                            \<lparr>im_conversationId = cid,
                                             im_content = r_content response,
                                             im_role = ''assistant'',
                                             im_language = Some (r_language response),
                                             im_attachment = JUndefined,
                                             im_suggestions = r_suggestions response,
                                             im_needsHumanReview = r_needsHumanReview response\<rparr>
                                            now_out
                                    in case updateConversation s2 cid
                                              \<lparr>pc_id = None, pc_customerId = None, pc_status = None,
                                               pc_language = None,
                                               pc_summary = Some (Some (summarizeConversation gw history)),
                                               pc_contextMemory = Some memory,
                                               pc_settings = None\<rparr> of
                                         (Inl e, s3) \<Rightarrow> (st1, s3, sent @ handleWebSocketError e)
                                       | (Inr c, s3) \<Rightarrow>
                                           (st1, s3,
                                            sent @
                                            [MessageEvent aiMessage
                                               (Some \<lparr>rd_source = r_source response,
                                                      rd_confidence = r_confidence response,
                                                      rd_suggestions = r_suggestions response,
                                                      rd_needsHumanReview =
                                                        r_needsHumanReview response\<rparr>)])))
                       | _ \<Rightarrow> (st, s, handleWebSocketError (ZodError ''Expected string''))))))"

definition update_settings ::
  "channel \<Rightarrow> MemStorage \<Rightarrow> jsval \<Rightarrow> channel \<times> MemStorage \<times> outbound list" where
  "update_settings st s msg =
     (case conversationId st of
        None \<Rightarrow> (st, s, handleWebSocketError no_conversation)
      | Some cid \<Rightarrow>
          if cid = 0 then (st, s, handleWebSocketError no_conversation)
          else
            (case property msg ''payload'' of
               Inl e \<Rightarrow> (st, s, handleWebSocketError e)
             | Inr pl \<Rightarrow>
                 (case property pl ''settings'' of
                    Inl e \<Rightarrow> (st, s, handleWebSocketError e)
                  | Inr settings \<Rightarrow>
                      (case updateConversation s cid
                              \<lparr>pc_id = None, pc_customerId = None, pc_status = None,
                               pc_language = None, pc_summary = None, pc_contextMemory = None,
                               pc_settings = Some settings\<rparr> of
                         (Inl e, s') \<Rightarrow> (st, s', handleWebSocketError e)
                       | (Inr c, s') \<Rightarrow> (st, s', [SettingsUpdated settings])))))"

text \<open>
  The listener of the socket's \<open>message\<close> event: \<open>data\<close> is the frame as received. A frame
  that does not parse, or parses to \<open>null\<close>, throws before the \<open>switch\<close> and is reported
  by the outer \<open>catch\<close>.
\<close>

definition on_message ::
  "runtime \<Rightarrow> gateway \<Rightarrow> int \<Rightarrow> int \<Rightarrow> channel \<Rightarrow> MemStorage \<Rightarrow> string
     \<Rightarrow> channel \<times> MemStorage \<times> outbound list" where
  "on_message rt gw now_in now_out st s data =
     (case JSON_parse rt data of
        None \<Rightarrow> (st, s, handleWebSocketError (SyntaxError ''Unexpected token in JSON''))
      | Some msg \<Rightarrow>
          (case property msg ''type'' of
             Inl e \<Rightarrow> (st, s, handleWebSocketError e)
           | Inr ty \<Rightarrow>
               if ty = JStr ''start_conversation'' then start_conversation now_in st s msg
               else if ty = JStr ''message'' then handle_message rt gw now_in now_out st s msg
               else if ty = JStr ''update_settings'' then update_settings st s msg
               else if ty = JStr ''typing'' then (st, s, [Typing])
               else if ty = JStr ''stop_typing'' then (st, s, [StopTyping])
               else (st, s,
                     handleWebSocketError
                       (Error (''Unknown message type: '' @ to_string rt ty)))))"

text \<open>
  The type of a frame, as the \<open>switch\<close> reads it (\<open>None\<close> when the frame throws before
  the \<open>switch\<close>), and a connection handling a sequence of frames one after the other, each
  with the answers of the model and the clock readings it meets.
\<close>

definition frame_type :: "runtime \<Rightarrow> string \<Rightarrow> jsval option" where
  "frame_type rt data =
     (case JSON_parse rt data of
        None \<Rightarrow> None
      | Some msg \<Rightarrow> (case property msg ''type'' of Inl e \<Rightarrow> None | Inr ty \<Rightarrow> Some ty))"

record frame =
  fr_gateway :: gateway
  fr_now_in :: int
  fr_now_out :: int
  fr_data :: string

fun run :: "runtime \<Rightarrow> frame list \<Rightarrow> channel \<Rightarrow> MemStorage \<Rightarrow> channel \<times> MemStorage \<times> outbound list" where
  "run rt [] st s = (st, s, [])"
| "run rt (f # fs) st s =
     (case on_message rt (fr_gateway f) (fr_now_in f) (fr_now_out f) st s (fr_data f) of
        (st1, s1, sent1) \<Rightarrow>
          (case run rt fs st1 s1 of (st2, s2, sent2) \<Rightarrow> (st2, s2, sent1 @ sent2)))"

section \<open>Reachable stores\<close>

text \<open>
  The stores the process can be in: the constructor's empty store, closed under every
  method of \<open>IStorage\<close> that writes, at any arguments of its declared type.
\<close>

inductive reachable :: "MemStorage \<Rightarrow> bool" where
  r_new: "reachable MemStorage_new"
| r_createConversation: "reachable s \<Longrightarrow> reachable (snd (createConversation s d))"
| r_updateConversation: "reachable s \<Longrightarrow> reachable (snd (updateConversation s i p))"
| r_createMessage: "reachable s \<Longrightarrow> reachable (snd (createMessage s m now))"
| r_createFAQ: "reachable s \<Longrightarrow> reachable (snd (createFAQ s f))"
| r_updateFAQ: "reachable s \<Longrightarrow> reachable (snd (updateFAQ s i q))"
| r_deleteFAQ: "reachable s \<Longrightarrow> reachable (deleteFAQ s i)"
| r_createCrmData: "reachable s \<Longrightarrow> reachable (snd (createCrmData s c))"
| r_trackSearch: "reachable s \<Longrightarrow> reachable (trackSearch rt s q now now')"
| r_getPopularSearches: "reachable s \<Longrightarrow> reachable (snd (getPopularSearches s limit))"

text \<open>The invariant on FAQs: every stored FAQ is enabled.\<close>

definition all_enabled :: "MemStorage \<Rightarrow> bool" where
  "all_enabled s = list_all (\<lambda>(i, f). f_enabled f) (faqs s)"

section \<open>Concrete stores and inputs\<close>

text \<open>Inputs at which the theorems below are evaluated.\<close>

text \<open>
  A runtime whose \<open>JSON.parse\<close> knows the texts used below and rejects every other
  text, and whose \<open>toLowerCase\<close> maps the capital E with acute accent (UTF-8 bytes C3 89)
  to the small one (C3 A9) and leaves every other string that is not ASCII as it is.
\<close>

definition e_acute_upper :: string where
  "e_acute_upper = [CHR 0xC3, CHR 0x89]"

definition e_acute_lower :: string where
  "e_acute_lower = [CHR 0xC3, CHR 0xA9]"

definition faq_hit_text :: string where
  \<open>faq_hit_text = ''{"matches":true,"answer":"Use the Forgot Password link.","confidence":0.9,"suggestions":[],"needsHumanReview":false}''\<close>

definition faq_hit_json :: jsval where
  "faq_hit_json =
     JObj [(''matches'', JBool True), (''answer'', JStr ''Use the Forgot Password link.''),
           (''confidence'', JNum (9 / 10)), (''suggestions'', JArr []),
           (''needsHumanReview'', JBool False)]"

definition faq_low_text :: string where
  \<open>faq_low_text = ''{"matches":true,"answer":"Use the Forgot Password link.","confidence":0.8,"suggestions":[],"needsHumanReview":false}''\<close>

definition faq_low_json :: jsval where
  "faq_low_json =
     JObj [(''matches'', JBool True), (''answer'', JStr ''Use the Forgot Password link.''),
           (''confidence'', JNum (8 / 10)), (''suggestions'', JArr []),
           (''needsHumanReview'', JBool False)]"

definition suggestions_text :: string where
  \<open>suggestions_text = ''{"suggestions":["How do I log in?"]}''\<close>

definition suggestions_json :: jsval where
  "suggestions_json = JObj [(''suggestions'', JArr [JStr ''How do I log in?''])]"

definition start_frame :: string where
  \<open>start_frame = ''{"type":"start_conversation","payload":{"customerId":"CUST001"}}''\<close>

definition start_json :: jsval where
  "start_json =
     JObj [(''type'', JStr ''start_conversation''),
           (''payload'', JObj [(''customerId'', JStr ''CUST001'')])]"

definition message_frame :: string where
  \<open>message_frame = ''{"type":"message","payload":{"content":"How do I reset my password?"}}''\<close>

definition message_json :: jsval where
  "message_json =
     JObj [(''type'', JStr ''message''),
           (''payload'', JObj [(''content'', JStr ''How do I reset my password?'')])]"

definition typing_frame :: string where
  \<open>typing_frame = ''{"type":"typing"}''\<close>

definition typing_json :: jsval where
  "typing_json = JObj [(''type'', JStr ''typing'')]"

definition parse_table :: "(string \<times> jsval) list" where
  "parse_table =
     [(faq_hit_text, faq_hit_json), (faq_low_text, faq_low_json),
      (suggestions_text, suggestions_json), (''[]'', JArr []),
      (start_frame, start_json), (message_frame, message_json), (typing_frame, typing_json)]"

definition node :: runtime where
  "node = \<lparr>JSON_parse = map_of parse_table, ToString = (\<lambda>v. ''[object Object]''),
           StringToNumber = (\<lambda>s. None),
           ToLowerCase = (\<lambda>s. if s = e_acute_upper then e_acute_lower else s),
           Trim = (\<lambda>s. s)\<rparr>"

definition password_faq :: FAQ where
  "password_faq =
     \<lparr>f_id = 1, f_question = ''How do I reset my password?'',
      f_answer = ''You can reset your password by clicking the 'Forgot Password' link on the login page and following the instructions sent to your email.'',
      f_enabled = True, f_language = Some ''en'', f_category = Some ''account''\<rparr>"

definition rename_answer :: PartialInsertFAQ where
  "rename_answer =
     \<lparr>pf_question = None, pf_answer = Some ''Use the reset link.'', pf_language = None,
      pf_category = None\<rparr>"

definition close_conversation :: PartialConversation where
  "close_conversation =
     \<lparr>pc_id = None, pc_customerId = None, pc_status = Some ''closed'', pc_language = None,
      pc_summary = None, pc_contextMemory = None, pc_settings = None\<rparr>"

definition first_conversation :: Conversation where
  "first_conversation =
     \<lparr>c_id = 1, c_customerId = JStr ''CUST001'', c_status = ''active'', c_language = Some ''en'',
      c_summary = None, c_contextMemory = JObj [], c_settings = JObj []\<rparr>"

definition one_conversation :: MemStorage where
  "one_conversation =
     snd (createConversation storage
            \<lparr>ic_customerId = JStr ''CUST001'', ic_status = Some ''active'',
             ic_language = Some ''en'', ic_settings = JUndefined\<rparr>)"



definition three_searches :: MemStorage where
  "three_searches =
     trackSearch node
       (trackSearch node (trackSearch node storage ''refund'' 1000 1000) ''billing'' 2000 2000)
       ''billing'' 3000 3000"

definition three_more :: "MemStorage \<Rightarrow> MemStorage" where
  "three_more s =
     trackSearch node
       (trackSearch node (trackSearch node s ''refund'' 4000 4000) ''refund'' 5000 5000)
       ''billing'' 6000 6000"

definition disabled_body :: jsval where
  "disabled_body =
     JObj [(''question'', JStr ''Is this shown?''), (''answer'', JStr ''Yes.''),
           (''enabled'', JBool False)]"

text \<open>
  A model that detects English, matches the password FAQ with confidence 0.9, replies
  with a sentence naming a Human agent and suggests one follow-up.
\<close>

definition human_reply :: string where
  "human_reply = ''A Human agent will help you.''"

definition model :: gateway where
  "model =
     \<lparr>detect_call = (\<lambda>t. Content (Some ''en'')),
      faq_call = (\<lambda>fs t. Content (Some faq_hit_text)),
      reply_call = (\<lambda>l c m. Content (Some human_reply)),
      suggest_call = (\<lambda>r. Content (Some suggestions_text)),
      summary_call = (\<lambda>m. Content (Some ''The customer asks about passwords.''))\<rparr>"

text \<open>The same model with a confidence of exactly 0.8, and with a failing FAQ match.\<close>

definition model_unsure :: gateway where
  "model_unsure = model\<lparr>faq_call := \<lambda>fs t. Content (Some faq_low_text)\<rparr>"

definition model_faq_down :: gateway where
  "model_faq_down = model\<lparr>faq_call := \<lambda>fs t. Throws (Error ''429 Too Many Requests'')\<rparr>"

text \<open>The unsure model answering the suggestion request with prose instead of JSON.\<close>

definition model_prose_suggestions :: gateway where
  "model_prose_suggestions =
     model_unsure\<lparr>suggest_call := \<lambda>r. Content (Some ''Sure! Here are three follow-up questions.'')\<rparr>"

text \<open>The unsure model with a reply request that times out.\<close>

definition model_reply_down :: gateway where
  "model_reply_down = model_unsure\<lparr>reply_call := \<lambda>l c m. Throws (Error ''Request timed out.'')\<rparr>"

definition question :: "ChatMessage list" where
  "question = [\<lparr>cm_role = ''user'', cm_content = JStr ''How do I reset my password?''\<rparr>]"

definition faq_response :: ChatResponse where
  "faq_response =
     \<lparr>r_content = JStr ''Use the Forgot Password link.'', r_source = Faq,
      r_confidence = JNum (9 / 10), r_language = ''en'', r_suggestions = JArr [],
      r_needsHumanReview = JBool False\<rparr>"

definition ai_response :: ChatResponse where
  "ai_response =
     \<lparr>r_content = JStr human_reply, r_source = Ai, r_confidence = JUndefined,
      r_language = ''en'', r_suggestions = JArr [JStr ''How do I log in?''],
      r_needsHumanReview = JBool True\<rparr>"

text \<open>A connection bound by a \<open>start_conversation\<close> frame on the seeded store.\<close>

definition bound_channel :: channel where
  "bound_channel = fst (on_message node model 1000 1000 channel_open storage start_frame)"

definition bound_store :: MemStorage where
  "bound_store = fst (snd (on_message node model 1000 1000 channel_open storage start_frame))"

definition typing_only :: "frame list" where
  "typing_only =
     [\<lparr>fr_gateway = model, fr_now_in = 500, fr_now_out = 500, fr_data = typing_frame\<rparr>]"

text \<open>The question frame handled on the bound connection.\<close>

definition question_payload :: jsval where
  "question_payload = JObj [(''content'', JStr ''How do I reset my password?'')]"

definition user_question :: Message where
  "user_question =
     fst (createMessage bound_store
            (inbound_message 1 ''How do I reset my password?'' question_payload) 2000)"

definition after_question :: MemStorage where
  "after_question =
     snd (createMessage bound_store
            (inbound_message 1 ''How do I reset my password?'' question_payload) 2000)"

section \<open>Properties of the store\<close>

subsection \<open>Evaluating the seeded store\<close>

lemmas seed_defs =
  storage_def createCrmData_def createFAQ_def MemStorage_new_def Let_def str_or_def

lemma storage_faq_1: "map_of (faqs storage) 1 = Some password_faq"
  by (simp add: seed_defs password_faq_def)

lemma storage_faq_999: "map_of (faqs storage) 999 = None"
  by (simp add: seed_defs)

lemma storage_conversations: "conversations storage = []"
  by (simp add: seed_defs)


lemma one_conversation_1: "map_of (conversations one_conversation) 1 = Some first_conversation"
  by (simp add: one_conversation_def createConversation_def first_conversation_def or_else_def
      seed_defs)

subsection \<open>Updating a conversation or an FAQ\<close>

text \<open>
  C4. For an id that is not a key of the map, \<open>updateConversation\<close> and \<open>updateFAQ\<close> throw
  the not-found error and return the store exactly as it was, every map included. For an
  id that is a key, they return the existing record with the fields of the partial
  merged in: in the returned record every field whose key is present in the partial has
  the partial's value, and every field whose key is absent has the value of the existing
  record (an FAQ keeps its id and its enabled flag, which no partial carries). They store
  that record under the id, and change nothing else in the store.
\<close>

theorem update_unknown_fails_known_merges:
  "(map_of (conversations s) i = None \<longrightarrow>
      updateConversation s i p = (Inl (Error ''Conversation not found''), s))
 \<and> (map_of (faqs s) j = None \<longrightarrow>
      updateFAQ s j q = (Inl (Error ''FAQ not found''), s))
 \<and> (\<forall>c. map_of (conversations s) i = Some c \<longrightarrow>
      fst (updateConversation s i p) = Inr (merge_conversation c p)
    \<and> c_id (merge_conversation c p) = (case pc_id p of None \<Rightarrow> c_id c | Some v \<Rightarrow> v)
    \<and> c_customerId (merge_conversation c p)
        = (case pc_customerId p of None \<Rightarrow> c_customerId c | Some v \<Rightarrow> v)
    \<and> c_status (merge_conversation c p)
        = (case pc_status p of None \<Rightarrow> c_status c | Some v \<Rightarrow> v)
    \<and> c_language (merge_conversation c p)
        = (case pc_language p of None \<Rightarrow> c_language c | Some v \<Rightarrow> v)
    \<and> c_summary (merge_conversation c p)
        = (case pc_summary p of None \<Rightarrow> c_summary c | Some v \<Rightarrow> v)
    \<and> c_contextMemory (merge_conversation c p)
        = (case pc_contextMemory p of None \<Rightarrow> c_contextMemory c | Some v \<Rightarrow> v)
    \<and> c_settings (merge_conversation c p)
        = (case pc_settings p of None \<Rightarrow> c_settings c | Some v \<Rightarrow> v)
    \<and> snd (updateConversation s i p)
        = s\<lparr>conversations := AList.update i (merge_conversation c p) (conversations s)\<rparr>
    \<and> getConversation (snd (updateConversation s i p)) i = Some (merge_conversation c p)
    \<and> (\<forall>k. k \<noteq> i \<longrightarrow>
          getConversation (snd (updateConversation s i p)) k = getConversation s k))
 \<and> (\<forall>f. map_of (faqs s) j = Some f \<longrightarrow>
      fst (updateFAQ s j q) = Inr (merge_faq f q)
    \<and> f_id (merge_faq f q) = f_id f
    \<and> f_enabled (merge_faq f q) = f_enabled f
    \<and> f_question (merge_faq f q)
        = (case pf_question q of None \<Rightarrow> f_question f | Some v \<Rightarrow> v)
    \<and> f_answer (merge_faq f q) = (case pf_answer q of None \<Rightarrow> f_answer f | Some v \<Rightarrow> v)
    \<and> f_language (merge_faq f q)
        = (case pf_language q of None \<Rightarrow> f_language f | Some v \<Rightarrow> v)
    \<and> f_category (merge_faq f q)
        = (case pf_category q of None \<Rightarrow> f_category f | Some v \<Rightarrow> v)
    \<and> snd (updateFAQ s j q) = s\<lparr>faqs := AList.update j (merge_faq f q) (faqs s)\<rparr>
    \<and> map_of (faqs (snd (updateFAQ s j q))) j = Some (merge_faq f q)
    \<and> (\<forall>k. k \<noteq> j \<longrightarrow> map_of (faqs (snd (updateFAQ s j q))) k = map_of (faqs s) k))"
  by (simp add: updateConversation_def updateFAQ_def getConversation_def Let_def update_conv'
      merge_conversation_def merge_faq_def)

theorem update_unknown_fails_known_merges_witness:
  "updateConversation storage 1 close_conversation
     = (Inl (Error ''Conversation not found''), storage)
 \<and> updateFAQ storage 999 rename_answer = (Inl (Error ''FAQ not found''), storage)
 \<and> fst (updateConversation one_conversation 1 close_conversation)
     = Inr (first_conversation\<lparr>c_status := ''closed''\<rparr>)
 \<and> getConversation (snd (updateConversation one_conversation 1 close_conversation)) 1
     = Some (first_conversation\<lparr>c_status := ''closed''\<rparr>)
 \<and> fst (updateFAQ storage 1 rename_answer)
     = Inr (password_faq\<lparr>f_answer := ''Use the reset link.''\<rparr>)
 \<and> map_of (faqs (snd (updateFAQ storage 1 rename_answer))) 1
     = Some (password_faq\<lparr>f_answer := ''Use the reset link.''\<rparr>)
 \<and> map_of (faqs (snd (updateFAQ storage 1 rename_answer))) 2 = map_of (faqs storage) 2"
proof -
  have absent: "map_of (conversations storage) 1 = None"
    by (simp add: storage_conversations)
  have mc: "merge_conversation first_conversation close_conversation
              = first_conversation\<lparr>c_status := ''closed''\<rparr>"
    by (simp add: merge_conversation_def close_conversation_def first_conversation_def)
  have mf: "merge_faq password_faq rename_answer
              = password_faq\<lparr>f_answer := ''Use the reset link.''\<rparr>"
    by (simp add: merge_faq_def rename_answer_def password_faq_def)
  show ?thesis
    using update_unknown_fails_known_merges
            [of storage 1 close_conversation 999 rename_answer]
          update_unknown_fails_known_merges
            [of one_conversation 1 close_conversation 1 rename_answer]
          update_unknown_fails_known_merges
            [of storage 1 close_conversation 1 rename_answer]
    by (simp add: absent storage_faq_999 storage_faq_1 one_conversation_1 mc mf
        getConversation_def update_conv')
qed

subsection \<open>Tracking searches\<close>













subsection \<open>Ranking searches\<close>

lemma getPopularSearches_descending:
  "sorted (map (\<lambda>e. - ps_count e) (popularSearches (snd (getPopularSearches s l))))"
  by (simp add: getPopularSearches_def Let_def)

lemma getPopularSearches_stable:
  "filter (\<lambda>e. ps_count e = k) (popularSearches (snd (getPopularSearches s l)))
     = filter (\<lambda>e. ps_count e = k) (popularSearches s)"
  using sort_key_stable[of "\<lambda>e. - ps_count e" "- k" "popularSearches s"]
  by (simp add: getPopularSearches_def Let_def)

lemma getPopularSearches_keeps_entries:
  "set (popularSearches (snd (getPopularSearches s l))) = set (popularSearches s)
 \<and> length (popularSearches (snd (getPopularSearches s l))) = length (popularSearches s)"
  by (simp add: getPopularSearches_def Let_def)

text \<open>
  \<open>getPopularSearches\<close> leaves the stored array sorted by descending count, with entries
  of equal count in the order they had in the stored array before the call, and with the
  same entries (nothing is evicted); it returns the query and count of the first \<open>limit\<close>
  entries of that array (5 when the limit is omitted).
\<close>

theorem getPopularSearches_sorts_stored_array:
  "sorted (map (\<lambda>e. - ps_count e) (popularSearches (snd (getPopularSearches s l))))
 \<and> filter (\<lambda>e. ps_count e = k) (popularSearches (snd (getPopularSearches s l)))
     = filter (\<lambda>e. ps_count e = k) (popularSearches s)
 \<and> set (popularSearches (snd (getPopularSearches s l))) = set (popularSearches s)
 \<and> length (popularSearches (snd (getPopularSearches s l))) = length (popularSearches s)
 \<and> fst (getPopularSearches s l)
     = map (\<lambda>e. (ps_query e, ps_count e))
         (slice0 (popularSearches (snd (getPopularSearches s l)))
            (case l of None \<Rightarrow> 5 | Some n \<Rightarrow> n))"
  using getPopularSearches_descending[of s l] getPopularSearches_stable[of k s l]
    getPopularSearches_keeps_entries[of s l]
  by (simp add: getPopularSearches_def Let_def)

text \<open>
  C6. \<open>getPopularSearches\<close> sorts the stored array itself, so a call reorders the store
  and a later tie is broken by that order, not by the order of insertion or of update.
  After \<open>trackSearch("refund")\<close>, \<open>trackSearch("billing")\<close>, \<open>trackSearch("billing")\<close> the
  store holds refund (count 1) before billing (count 2). Then refund is tracked twice
  and billing once more, so both counts are 3, refund was inserted first and billing was
  updated last. If \<open>getPopularSearches()\<close> was called before these three writes, it
  returned billing, refund and left the store in that order, and the final
  \<open>getPopularSearches()\<close> returns billing before refund. If it was not called, the same
  final call after the same writes returns refund before billing.
\<close>

theorem getPopularSearches_tie_order_after_earlier_call:
  "popularSearches three_searches
     = [\<lparr>ps_query = ''refund'', ps_count = 1, ps_timestamp = 1000\<rparr>,
        \<lparr>ps_query = ''billing'', ps_count = 2, ps_timestamp = 3000\<rparr>]
 \<and> fst (getPopularSearches three_searches None) = [(''billing'', 2), (''refund'', 1)]
 \<and> fst (getPopularSearches (three_more (snd (getPopularSearches three_searches None))) None)
     = [(''billing'', 3), (''refund'', 3)]
 \<and> fst (getPopularSearches (three_more three_searches) None)
     = [(''refund'', 3), (''billing'', 3)]"
  by code_simp

section \<open>Properties of the HTTP API\<close>

lemma map_of_None_notin: "map_of al k = None \<Longrightarrow> k \<notin> fst ` set al"
  by (simp add: map_of_eq_None_iff)

lemma deleteFAQ_absent: "map_of (faqs s) i = None \<Longrightarrow> deleteFAQ s i = s"
  by (simp add: deleteFAQ_def map_of_None_notin)

lemma deleteFAQ_twice: "deleteFAQ (deleteFAQ s i) i = deleteFAQ s i"
  by (simp add: deleteFAQ_def delete_idem)

lemma patch_faq_unknown:
  "map_of (faqs s) i = None \<Longrightarrow>
     patch_faq s (Some i) b
       = (\<lparr>status = 400, payload = JsonError ''Invalid FAQ update data''\<rparr>, s)"
  by (simp add: patch_faq_def updateFAQ_def Let_def split: sum.splits)

lemma storage_crm_unknown: "getCrmData storage ''CUST999'' = None"
  by (simp add: getCrmData_def seed_defs)

text \<open>
  C7, as stated, fails for DELETE: \<open>deleteFAQ\<close> never throws, so \<open>DELETE /api/faqs/999\<close> on
  the seeded store, which has no FAQ 999, answers 204 and not a 400-class status.
\<close>

theorem delete_unknown_faq_answers_204:
  "map_of (faqs storage) 999 = None
 \<and> fst (delete_faq storage (Some 999)) = \<lparr>status = 204, payload = NoBody\<rparr>
 \<and> \<not> (400 \<le> status (fst (delete_faq storage (Some 999)))
      \<and> status (fst (delete_faq storage (Some 999))) < 500)"
  by (simp add: storage_faq_999 delete_faq_def)

text \<open>
  C7, amended. For an FAQ id that is not in the store, \<open>PATCH /api/faqs/:id\<close> answers 400
  (whatever the body) and leaves the store as it was, while \<open>DELETE /api/faqs/:id\<close>
  answers 204 and leaves the store as it was; \<open>DELETE\<close> answers 400 only when the id
  segment is not a number. \<open>GET /api/crm/:customerId\<close> for an unknown customer answers
  404. In the store, \<open>deleteFAQ\<close> has no failing branch, on an absent id it returns the
  store unchanged, and deleting twice is the same as deleting once.
\<close>

theorem unknown_faq_patch_400_delete_204_crm_404:
  "(map_of (faqs s) i = None \<longrightarrow>
      patch_faq s (Some i) b
        = (\<lparr>status = 400, payload = JsonError ''Invalid FAQ update data''\<rparr>, s)
    \<and> delete_faq s (Some i) = (\<lparr>status = 204, payload = NoBody\<rparr>, s)
    \<and> deleteFAQ s i = s)
 \<and> delete_faq s None = (\<lparr>status = 400, payload = JsonError ''Invalid FAQ ID''\<rparr>, s)
 \<and> (getCrmData s c = None \<longrightarrow>
      get_crm s c = (\<lparr>status = 404, payload = JsonMessage ''Customer not found''\<rparr>, s))
 \<and> deleteFAQ (deleteFAQ s i) i = deleteFAQ s i"
  by (simp add: patch_faq_unknown deleteFAQ_absent deleteFAQ_twice delete_faq_def get_crm_def)

theorem unknown_faq_patch_400_delete_204_crm_404_witness:
  "patch_faq storage (Some 999) (JObj [(''answer'', JStr ''x'')])
     = (\<lparr>status = 400, payload = JsonError ''Invalid FAQ update data''\<rparr>, storage)
 \<and> delete_faq storage (Some 999) = (\<lparr>status = 204, payload = NoBody\<rparr>, storage)
 \<and> deleteFAQ (deleteFAQ storage 999) 999 = storage
 \<and> get_crm storage ''CUST999''
     = (\<lparr>status = 404, payload = JsonMessage ''Customer not found''\<rparr>, storage)"
  using unknown_faq_patch_400_delete_204_crm_404
          [of storage 999 "JObj [(''answer'', JStr ''x'')]" "''CUST999''"]
  by (simp add: storage_faq_999 storage_crm_unknown)

section \<open>The invariant on FAQs\<close>

lemma in_update_cases: "x \<in> set (AList.update k v al) \<Longrightarrow> x = (k, v) \<or> x \<in> set al"
  by (induction al) (auto split: if_splits)

lemma in_delete_subset: "x \<in> set (AList.delete k al) \<Longrightarrow> x \<in> set al"
  by (simp add: AList.delete_eq)

lemma all_enabled_update:
  "all_enabled s \<Longrightarrow> f_enabled f \<Longrightarrow> all_enabled (s\<lparr>faqs := AList.update k f (faqs s)\<rparr>)"
  by (auto simp: all_enabled_def list_all_iff dest!: in_update_cases)

lemma all_enabled_frame: "faqs s' = faqs s \<Longrightarrow> all_enabled s \<Longrightarrow> all_enabled s'"
  by (simp add: all_enabled_def)

lemma map_of_enabled: "all_enabled s \<Longrightarrow> map_of (faqs s) i = Some f \<Longrightarrow> f_enabled f"
  by (auto simp: all_enabled_def list_all_iff dest!: map_of_SomeD)

lemma reachable_enabled: "reachable s \<Longrightarrow> all_enabled s"
proof (induction rule: reachable.induct)
  case r_new
  then show ?case
    by (simp add: all_enabled_def MemStorage_new_def)
next
  case (r_createConversation s d)
  then show ?case
    by (auto simp: createConversation_def Let_def elim: all_enabled_frame[rotated])
next
  case (r_updateConversation s i p)
  then show ?case
    by (auto simp: updateConversation_def Let_def split: option.splits
        elim: all_enabled_frame[rotated])
next
  case (r_createMessage s m now)
  then show ?case
    by (auto simp: createMessage_def Let_def elim: all_enabled_frame[rotated])
next
  case (r_createFAQ s f)
  then show ?case
    using all_enabled_update[of s] by (simp add: createFAQ_def Let_def all_enabled_def)
next
  case (r_updateFAQ s i q)
  then show ?case
    using all_enabled_update[of s] map_of_enabled[of s i]
    by (auto simp: updateFAQ_def Let_def merge_faq_def all_enabled_def split: option.splits)
next
  case (r_deleteFAQ s i)
  then show ?case
    by (auto simp: deleteFAQ_def all_enabled_def list_all_iff dest!: in_delete_subset)
next
  case (r_createCrmData s c)
  then show ?case
    by (auto simp: createCrmData_def Let_def elim: all_enabled_frame[rotated])
next
  case (r_trackSearch s rt q now now')
  then show ?case
    by (auto simp: trackSearch_def Let_def elim: all_enabled_frame[rotated])
next
  case (r_getPopularSearches s limit)
  then show ?case
    by (auto simp: getPopularSearches_def Let_def elim: all_enabled_frame[rotated])
qed

text \<open>The handlers reach the store only through its methods.\<close>

lemmas store_steps =
  r_createConversation r_updateConversation r_createMessage r_createFAQ r_updateFAQ r_deleteFAQ

lemma post_faq_reachable: "reachable s \<Longrightarrow> reachable (snd (post_faq s b))"
  by (auto simp: post_faq_def case_prod_beta split: sum.splits intro!: store_steps)

lemma patch_faq_reachable: "reachable s \<Longrightarrow> reachable (snd (patch_faq s i b))"
  by (auto simp: patch_faq_def Let_def case_prod_beta split: sum.splits option.splits
      intro!: store_steps)

lemma delete_faq_reachable: "reachable s \<Longrightarrow> reachable (snd (delete_faq s i))"
  by (auto simp: delete_faq_def split: option.splits intro!: store_steps)

lemma start_conversation_reachable:
  "reachable s \<Longrightarrow> reachable (fst (snd (start_conversation now st s msg)))"
  by (auto simp: start_conversation_def Let_def case_prod_beta split: sum.splits
      intro!: store_steps)

lemma update_settings_reachable:
  "reachable s \<Longrightarrow> reachable (fst (snd (update_settings st s msg)))"
  by (auto simp: update_settings_def Let_def case_prod_beta split: sum.splits option.splits
      intro!: store_steps)

lemma handle_message_reachable:
  "reachable s \<Longrightarrow> reachable (fst (snd (handle_message rt gw t1 t2 st s msg)))"
  by (auto simp: handle_message_def Let_def case_prod_beta
      split: sum.splits option.splits jsval.splits intro!: store_steps)

lemma on_message_reachable:
  "reachable s \<Longrightarrow> reachable (fst (snd (on_message rt gw t1 t2 st s data)))"
  by (simp add: on_message_def start_conversation_reachable update_settings_reachable
      handle_message_reachable split: option.splits sum.splits)

lemma storage_reachable: "reachable storage"
  unfolding storage_def Let_def by (intro r_createFAQ r_createCrmData r_new)

text \<open>
  C10. \<open>createFAQ\<close> stores \<open>enabled = true\<close> whatever its input is. In every store
  reachable from the constructor's empty store by the store's methods, every FAQ has
  \<open>enabled = true\<close>: no method takes an \<open>enabled\<close> value, since \<open>createFAQ\<close> and \<open>updateFAQ\<close>
  take the fields of \<open>insertFaqSchema\<close> only. The HTTP handlers for POST, PATCH and DELETE
  and the session protocol handler lead from reachable stores to reachable stores, for
  every request body, so no request can disable an FAQ.
\<close>

theorem every_stored_faq_is_enabled:
  "f_enabled (fst (createFAQ s d))
 \<and> (reachable s \<longrightarrow>
      (\<forall>i f. (i, f) \<in> set (faqs s) \<longrightarrow> f_enabled f)
    \<and> reachable (snd (post_faq s b))
    \<and> reachable (snd (patch_faq s ip b))
    \<and> reachable (snd (delete_faq s ip))
    \<and> reachable (fst (snd (on_message rt gw t1 t2 st s data))))"
proof (intro conjI impI)
  show "f_enabled (fst (createFAQ s d))"
    by (simp add: createFAQ_def Let_def)
next
  assume "reachable s"
  then have "all_enabled s"
    by (rule reachable_enabled)
  then show "\<forall>i f. (i, f) \<in> set (faqs s) \<longrightarrow> f_enabled f"
    by (auto simp: all_enabled_def list_all_iff)
qed (simp_all add: post_faq_reachable patch_faq_reachable delete_faq_reachable
      on_message_reachable)

theorem every_stored_faq_is_enabled_witness:
  "reachable storage
 \<and> (1, password_faq) \<in> set (faqs storage)
 \<and> f_enabled password_faq
 \<and> reachable (snd (post_faq storage disabled_body))
 \<and> payload (fst (post_faq storage disabled_body))
     = JsonFaq \<lparr>f_id = 3, f_question = ''Is this shown?'', f_answer = ''Yes.'',
                f_enabled = True, f_language = Some ''en'', f_category = None\<rparr>"
proof -
  have member: "(1, password_faq) \<in> set (faqs storage)"
    using storage_faq_1 by (rule map_of_SomeD)
  have posted: "payload (fst (post_faq storage disabled_body))
     = JsonFaq \<lparr>f_id = 3, f_question = ''Is this shown?'', f_answer = ''Yes.'',
                f_enabled = True, f_language = Some ''en'', f_category = None\<rparr>"
    by (simp add: post_faq_def insertFaqSchema_parse_def disabled_body_def field_def seed_defs)
  show ?thesis
    using every_stored_faq_is_enabled[where s = storage and b = disabled_body]
      storage_reachable member posted
    by blast
qed

section \<open>Properties of the completion gateway\<close>

lemma faq_try_some_iff:
  "(case faq_try rt gw fs um lang of Inl e \<Rightarrow> None | Inr r \<Rightarrow> r) \<noteq> None
     \<longleftrightarrow> faq_accepted rt (faq_call gw fs um)"
  by (auto simp: faq_try_def faq_accepted_def opt_property_def
      split: completion.splits option.splits sum.splits)

lemma faq_try_source:
  "(case faq_try rt gw fs um lang of Inl e \<Rightarrow> None | Inr r \<Rightarrow> r) = Some r \<Longrightarrow> r_source r = Faq"
  by (auto simp: faq_try_def split: completion.splits option.splits sum.splits if_splits)

lemma faq_try_review:
  "(case faq_try rt gw fs um lang of Inl e \<Rightarrow> None | Inr r \<Rightarrow> r) = Some r \<Longrightarrow>
     \<exists>reply result. faq_call gw fs um = Content (Some reply) \<and> JSON_parse rt reply = Some result
       \<and> r_needsHumanReview r = opt_property result ''needsHumanReview''"
  by (auto simp: faq_try_def split: completion.splits option.splits sum.splits if_splits)

lemma generateReply_source: "generateReply rt gw msgs ctx lang = Inr r \<Longrightarrow> r_source r = Ai"
  by (auto simp: generateReply_def split: completion.splits option.splits sum.splits if_splits)

lemma generateReply_review:
  "generateReply rt gw msgs ctx lang = Inr r \<Longrightarrow>
     \<exists>reply. r_content r = JStr reply
       \<and> r_needsHumanReview r = JBool (str_includes (toLowerCase rt reply) ''human'')"
  by (auto simp: generateReply_def split: completion.splits option.splits sum.splits if_splits)

lemma generateReply_ignores_faq_call:
  "generateReply rt (gw\<lparr>faq_call := f\<rparr>) msgs ctx lang = generateReply rt gw msgs ctx lang"
  by (simp add: generateReply_def cong: completion.case_cong option.case_cong if_cong)

lemma generateResponse_cases:
  assumes "msgs \<noteq> []" and "cm_role (last msgs) = ''user''"
  shows "generateResponse rt gw msgs faqList ctx l =
     (case (case faq_try rt gw
                   (filter (\<lambda>faq. lang_matches (f_language faq) (detected rt gw msgs)) faqList)
                   (cm_content (last msgs)) (detected rt gw msgs) of
              Inl e \<Rightarrow> None | Inr r \<Rightarrow> r) of
        Some r \<Rightarrow> Inr r
      | None \<Rightarrow> generateReply rt gw msgs ctx (detected rt gw msgs))"
  unfolding generateResponse_def detected_def Let_def using assms by simp

lemma faq_accepted_typed:
  "out = Content (Some reply) \<Longrightarrow> reply \<noteq> [] \<Longrightarrow> JSON_parse rt reply = Some (JObj kvs) \<Longrightarrow>
   map_of kvs ''matches'' = Some (JBool m) \<Longrightarrow> map_of kvs ''confidence'' = Some (JNum c) \<Longrightarrow>
   faq_accepted rt out \<longleftrightarrow> m \<and> 8 / 10 < c"
  by (simp add: faq_accepted_def opt_property_def js_gt_def to_number_def)

lemma generateReply_unparseable_suggestions:
  "reply_call gw lang (or_else (opt_property ctx ''summary'') (JStr ''No previous context'')) msgs
     = Content (Some reply) \<Longrightarrow> reply \<noteq> [] \<Longrightarrow>
   suggest_call gw reply = Content (Some out) \<Longrightarrow> out \<noteq> [] \<Longrightarrow> JSON_parse rt out = None \<Longrightarrow>
   generateReply rt gw msgs ctx lang = Inl (SyntaxError ''Unexpected token in JSON'')"
  by (simp add: generateReply_def str_or_def)

subsection \<open>Evaluating the gateway\<close>

lemma question_from_user: "question \<noteq> [] \<and> cm_role (last question) = ''user''"
  by (simp add: question_def)

lemma sure_answers_from_faq:
  "generateResponse node model question (getFAQs storage None) JNull ''en'' = Inr faq_response"
  by code_simp

lemma unsure_generates:
  "generateReply node model_unsure question JNull ''en'' = Inr ai_response"
  by code_simp

lemma faq_down_generates:
  "generateReply node model_faq_down question JNull ''en'' = Inr ai_response"
  by code_simp

lemma unsure_not_accepted:
  "\<not> faq_accepted node (faq_outcome node model_unsure question (getFAQs storage None))"
  by code_simp

lemma faq_down_throws:
  "faq_outcome node model_faq_down question (getFAQs storage None)
     = Throws (Error ''429 Too Many Requests'')"
  by code_simp

lemma detected_en:
  "detected node model_unsure question = ''en'' \<and> detected node model_faq_down question = ''en''"
  by code_simp

lemma unsure_response:
  "generateResponse node model_unsure question (getFAQs storage None) JNull ''en''
     = Inr ai_response"
  by code_simp

subsection \<open>The FAQ match\<close>

text \<open>
  C2. For a history that ends with a user message, \<open>generateResponse\<close> returns an answer
  with source \<open>faq\<close> if and only if the FAQ match returned a result whose match flag holds
  and whose confidence exceeds 0.8 (\<open>faq_accepted\<close>; for a boolean flag \<open>m\<close> and a numeric
  confidence \<open>c\<close> this is \<open>m\<close> and \<open>0.8 < c\<close>). Otherwise, and in particular whenever the
  FAQ match throws, the result of \<open>generateResponse\<close> is that of the free-form generation
  \<open>generateReply\<close>, which does not depend on what the FAQ match call does: the failure or
  the rejected result is not passed on to the caller.
\<close>

theorem faq_sourced_iff_match_and_confident:
  "msgs \<noteq> [] \<and> cm_role (last msgs) = ''user'' \<longrightarrow>
     ((\<exists>r. generateResponse rt gw msgs faqList ctx l = Inr r \<and> r_source r = Faq)
        \<longleftrightarrow> faq_accepted rt (faq_outcome rt gw msgs faqList))
   \<and> (\<not> faq_accepted rt (faq_outcome rt gw msgs faqList) \<longrightarrow>
        generateResponse rt gw msgs faqList ctx l = generateReply rt gw msgs ctx (detected rt gw msgs))
   \<and> (\<forall>e. faq_outcome rt gw msgs faqList = Throws e \<longrightarrow>
        generateResponse rt gw msgs faqList ctx l = generateReply rt gw msgs ctx (detected rt gw msgs))
   \<and> (\<forall>f. generateReply rt (gw\<lparr>faq_call := f\<rparr>) msgs ctx (detected rt gw msgs)
            = generateReply rt gw msgs ctx (detected rt gw msgs))
   \<and> (\<forall>reply kvs m c.
         faq_outcome rt gw msgs faqList = Content (Some reply) \<and> reply \<noteq> []
         \<and> JSON_parse rt reply = Some (JObj kvs)
         \<and> map_of kvs ''matches'' = Some (JBool m) \<and> map_of kvs ''confidence'' = Some (JNum c) \<longrightarrow>
         (faq_accepted rt (faq_outcome rt gw msgs faqList) \<longleftrightarrow> m \<and> 8 / 10 < c))"
proof (intro impI)
  assume pre: "msgs \<noteq> [] \<and> cm_role (last msgs) = ''user''"
  let ?fs = "filter (\<lambda>faq. lang_matches (f_language faq) (detected rt gw msgs)) faqList"
  let ?um = "cm_content (last msgs)"
  let ?faq = "case faq_try rt gw ?fs ?um (detected rt gw msgs) of Inl e \<Rightarrow> None | Inr r \<Rightarrow> r"
  have out: "faq_outcome rt gw msgs faqList = faq_call gw ?fs ?um"
    by (simp add: faq_outcome_def)
  have gen: "generateResponse rt gw msgs faqList ctx l =
      (case ?faq of Some r \<Rightarrow> Inr r | None \<Rightarrow> generateReply rt gw msgs ctx (detected rt gw msgs))"
    using pre by (simp add: generateResponse_cases)
  have acc: "?faq \<noteq> None \<longleftrightarrow> faq_accepted rt (faq_outcome rt gw msgs faqList)"
    unfolding out by (rule faq_try_some_iff)
  have iff: "(\<exists>r. generateResponse rt gw msgs faqList ctx l = Inr r \<and> r_source r = Faq)
        \<longleftrightarrow> faq_accepted rt (faq_outcome rt gw msgs faqList)"
  proof (cases ?faq)
    case None
    then show ?thesis
      using acc gen generateReply_source[of rt gw msgs ctx "detected rt gw msgs"] by auto
  next
    case (Some r)
    then show ?thesis
      using acc gen faq_try_source[of rt gw ?fs ?um "detected rt gw msgs" r] by auto
  qed
  have fall: "\<not> faq_accepted rt (faq_outcome rt gw msgs faqList) \<Longrightarrow>
        generateResponse rt gw msgs faqList ctx l = generateReply rt gw msgs ctx (detected rt gw msgs)"
    using acc gen by simp
  have thrown: "faq_outcome rt gw msgs faqList = Throws e \<Longrightarrow>
        generateResponse rt gw msgs faqList ctx l = generateReply rt gw msgs ctx (detected rt gw msgs)"
    for e
    using fall by (simp add: faq_accepted_def)
  show "((\<exists>r. generateResponse rt gw msgs faqList ctx l = Inr r \<and> r_source r = Faq)
        \<longleftrightarrow> faq_accepted rt (faq_outcome rt gw msgs faqList))
   \<and> (\<not> faq_accepted rt (faq_outcome rt gw msgs faqList) \<longrightarrow>
        generateResponse rt gw msgs faqList ctx l = generateReply rt gw msgs ctx (detected rt gw msgs))
   \<and> (\<forall>e. faq_outcome rt gw msgs faqList = Throws e \<longrightarrow>
        generateResponse rt gw msgs faqList ctx l = generateReply rt gw msgs ctx (detected rt gw msgs))
   \<and> (\<forall>f. generateReply rt (gw\<lparr>faq_call := f\<rparr>) msgs ctx (detected rt gw msgs)
            = generateReply rt gw msgs ctx (detected rt gw msgs))
   \<and> (\<forall>reply kvs m c.
         faq_outcome rt gw msgs faqList = Content (Some reply) \<and> reply \<noteq> []
         \<and> JSON_parse rt reply = Some (JObj kvs)
         \<and> map_of kvs ''matches'' = Some (JBool m) \<and> map_of kvs ''confidence'' = Some (JNum c) \<longrightarrow>
         (faq_accepted rt (faq_outcome rt gw msgs faqList) \<longleftrightarrow> m \<and> 8 / 10 < c))"
    using iff fall thrown faq_accepted_typed[of "faq_outcome rt gw msgs faqList" _ rt]
    by (simp add: generateReply_ignores_faq_call)
qed

theorem faq_sourced_iff_match_and_confident_witness:
  "generateResponse node model question (getFAQs storage None) JNull ''en'' = Inr faq_response
 \<and> faq_accepted node (faq_outcome node model question (getFAQs storage None))
 \<and> generateResponse node model_unsure question (getFAQs storage None) JNull ''en''
     = Inr ai_response
 \<and> generateResponse node model_faq_down question (getFAQs storage None) JNull ''en''
     = Inr ai_response"
proof -
  note T = faq_sourced_iff_match_and_confident
  have src: "r_source faq_response = Faq"
    by (simp add: faq_response_def)
  have acc: "faq_accepted node (faq_outcome node model question (getFAQs storage None))"
    using T[of question node model "getFAQs storage None" JNull "''en''"]
      question_from_user sure_answers_from_faq src
    by blast
  have unsure: "generateResponse node model_unsure question (getFAQs storage None) JNull ''en''
                  = Inr ai_response"
    using T[of question node model_unsure "getFAQs storage None" JNull "''en''"]
      question_from_user unsure_not_accepted unsure_generates detected_en
    by simp
  have down: "generateResponse node model_faq_down question (getFAQs storage None) JNull ''en''
                  = Inr ai_response"
    using T[of question node model_faq_down "getFAQs storage None" JNull "''en''"]
      question_from_user faq_down_throws faq_down_generates detected_en
    by simp
  show ?thesis
    using sure_answers_from_faq acc unsure down by simp
qed

subsection \<open>Follow-up suggestions\<close>

text \<open>
  C3. When the suggestion request returns text that \<open>JSON.parse\<close> rejects, the
  SyntaxError is thrown outside any inner \<open>try\<close>, reaches the outer \<open>catch\<close> of
  \<open>generateResponse\<close> and is rethrown: the whole response fails. Here the FAQ match is
  not confident, the reply is generated, and the suggestion request answers with prose.
\<close>

theorem unparseable_suggestions_fail_the_response:
  "suggest_call model_prose_suggestions human_reply
     = Content (Some ''Sure! Here are three follow-up questions.'')
 \<and> JSON_parse node ''Sure! Here are three follow-up questions.'' = None
 \<and> generateResponse node model_prose_suggestions question (getFAQs storage None) JNull ''en''
     = Inl (SyntaxError ''Unexpected token in JSON'')"
  by code_simp

subsection \<open>The review flag\<close>

text \<open>
  C8, as stated, fails: the reply is lower-cased before the test, so a reply that has
  \<open>Human\<close> with a capital letter, and nowhere the text \<open>human\<close>, is flagged.
\<close>

theorem capitalised_Human_is_flagged:
  "generateResponse node model_unsure question (getFAQs storage None) JNull ''en''
     = Inr \<lparr>r_content = JStr human_reply, r_source = Ai, r_confidence = JUndefined,
            r_language = ''en'', r_suggestions = JArr [JStr ''How do I log in?''],
            r_needsHumanReview = JBool True\<rparr>
 \<and> \<not> str_includes human_reply ''human''"
  by code_simp

text \<open>
  C8, amended. For every freely generated reply (source \<open>ai\<close>), \<open>needsHumanReview\<close> is
  true exactly when the lower-cased reply text contains \<open>human\<close> as a substring, that is,
  when the reply contains the letters of \<open>human\<close> in any mix of cases. For an FAQ-sourced
  reply the flag is the \<open>needsHumanReview\<close> property of the parsed result of the FAQ
  match, whatever value that is.
\<close>

theorem review_flag_of_response:
  "generateResponse rt gw msgs faqList ctx l = Inr r \<longrightarrow>
     (r_source r = Ai \<longrightarrow>
        (\<exists>reply. r_content r = JStr reply
           \<and> r_needsHumanReview r = JBool (str_includes (toLowerCase rt reply) ''human'')))
   \<and> (r_source r = Faq \<longrightarrow>
        (\<exists>reply result. faq_outcome rt gw msgs faqList = Content (Some reply)
           \<and> JSON_parse rt reply = Some result
           \<and> r_needsHumanReview r = opt_property result ''needsHumanReview''))"
proof (intro impI conjI)
  assume g: "generateResponse rt gw msgs faqList ctx l = Inr r"
  then have ne: "msgs \<noteq> []"
    by (auto simp: generateResponse_def)
  let ?fs = "filter (\<lambda>faq. lang_matches (f_language faq) (detected rt gw msgs)) faqList"
  let ?um = "cm_content (last msgs)"
  let ?faq = "case faq_try rt gw ?fs ?um (detected rt gw msgs) of Inl e \<Rightarrow> None | Inr r \<Rightarrow> r"
  have cases: "(cm_role (last msgs) = ''user'' \<and> ?faq = Some r)
      \<or> generateReply rt gw msgs ctx (detected rt gw msgs) = Inr r"
    using g ne
    by (auto simp: generateResponse_def detected_def Let_def split: option.splits if_splits)
  {
    assume "r_source r = Ai"
    then have "generateReply rt gw msgs ctx (detected rt gw msgs) = Inr r"
      using cases faq_try_source[of rt gw ?fs ?um "detected rt gw msgs" r] by auto
    then show "\<exists>reply. r_content r = JStr reply
           \<and> r_needsHumanReview r = JBool (str_includes (toLowerCase rt reply) ''human'')"
      by (rule generateReply_review)
  }
  {
    assume "r_source r = Faq"
    then have "?faq = Some r"
      using cases generateReply_source[of rt gw msgs ctx "detected rt gw msgs" r] by auto
    then show "\<exists>reply result. faq_outcome rt gw msgs faqList = Content (Some reply)
           \<and> JSON_parse rt reply = Some result
           \<and> r_needsHumanReview r = opt_property result ''needsHumanReview''"
      unfolding faq_outcome_def by (rule faq_try_review)
  }
qed

theorem review_flag_of_response_witness:
  "(\<exists>reply. r_content ai_response = JStr reply
      \<and> r_needsHumanReview ai_response = JBool (str_includes (toLowerCase node reply) ''human''))
 \<and> (\<exists>reply result. faq_outcome node model question (getFAQs storage None) = Content (Some reply)
      \<and> JSON_parse node reply = Some result
      \<and> r_needsHumanReview faq_response = opt_property result ''needsHumanReview'')
 \<and> generateResponse node model_unsure question (getFAQs storage None) JNull ''en''
     = Inr ai_response
 \<and> generateResponse node model question (getFAQs storage None) JNull ''en'' = Inr faq_response"
proof -
  have ai: "r_source ai_response = Ai"
    by (simp add: ai_response_def)
  have faq: "r_source faq_response = Faq"
    by (simp add: faq_response_def)
  show ?thesis
    using review_flag_of_response
            [of node model_unsure question "getFAQs storage None" JNull "''en''" ai_response]
          review_flag_of_response
            [of node model question "getFAQs storage None" JNull "''en''" faq_response]
          unsure_response sure_answers_from_faq ai faq
    by simp
qed

section \<open>Properties of the session protocol handler\<close>

lemma handle_message_unbound:
  "conversationId st = None \<Longrightarrow>
     handle_message rt gw t1 t2 st s msg = (st, s, [ErrorEvent ''No active conversation''])"
  by (simp add: handle_message_def handleWebSocketError_def no_conversation_def)

lemma on_message_message:
  "frame_type rt data = Some (JStr ''message'') \<Longrightarrow>
     \<exists>msg. JSON_parse rt data = Some msg \<and> property msg ''type'' = Inr (JStr ''message'')
       \<and> on_message rt gw t1 t2 st s data = handle_message rt gw t1 t2 st s msg"
  by (auto simp: frame_type_def on_message_def split: option.splits sum.splits)

lemma handle_message_channel:
  "conversationId (fst (handle_message rt gw t1 t2 st s msg)) = conversationId st"
  by (auto simp: handle_message_def Let_def case_prod_beta
      split: option.splits sum.splits jsval.splits)

lemma update_settings_channel:
  "conversationId (fst (update_settings st s msg)) = conversationId st"
  by (auto simp: update_settings_def Let_def case_prod_beta split: option.splits sum.splits)

lemma on_message_stays_unbound:
  "frame_type rt data \<noteq> Some (JStr ''start_conversation'') \<Longrightarrow>
     conversationId (fst (on_message rt gw t1 t2 st s data)) = conversationId st"
  by (auto simp: frame_type_def on_message_def handle_message_channel update_settings_channel
      split: option.splits sum.splits)

lemma run_stays_unbound:
  "\<forall>f\<in>set fs. frame_type rt (fr_data f) \<noteq> Some (JStr ''start_conversation'') \<Longrightarrow>
     conversationId st = None \<Longrightarrow> conversationId (fst (run rt fs st s)) = None"
proof (induction fs arbitrary: st s)
  case Nil
  then show ?case by simp
next
  case (Cons f fs)
  obtain st1 s1 sent1 where step:
    "on_message rt (fr_gateway f) (fr_now_in f) (fr_now_out f) st s (fr_data f) = (st1, s1, sent1)"
    by (cases "on_message rt (fr_gateway f) (fr_now_in f) (fr_now_out f) st s (fr_data f)") auto
  have "conversationId st1 = None"
    using on_message_stays_unbound
            [of rt "fr_data f" "fr_gateway f" "fr_now_in f" "fr_now_out f" st s]
      Cons.prems step
    by simp
  then have "conversationId (fst (run rt fs st1 s1)) = None"
    using Cons.IH Cons.prems by simp
  then show ?case
    using step by (cases "run rt fs st1 s1") auto
qed

subsection \<open>Evaluating the handler\<close>

lemma type_message: "frame_type node message_frame = Some (JStr ''message'')"
  by code_simp

lemma type_typing: "frame_type node typing_frame = Some (JStr ''typing'')"
  by code_simp

lemma bound_to_1: "conversationId bound_channel = Some 1"
  by code_simp

lemma parse_message_frame: "JSON_parse node message_frame = Some message_json"
  by code_simp

lemma message_frame_parts:
  "property message_json ''type'' = Inr (JStr ''message'')
 \<and> property message_json ''payload'' = Inr question_payload
 \<and> message_content node question_payload = Inr (JStr ''How do I reset my password?'')"
  by code_simp

lemma reply_times_out:
  "generateResponse node model_reply_down (map chat_of (getMessages after_question 1))
     (getFAQs after_question None)
     (updateConversationContext model_reply_down (map chat_of (getMessages after_question 1)))
     (m_language user_question)
   = Inl (Error ''Request timed out.'')"
  by code_simp

lemma summary_value:
  "updateConversationContext model_reply_down (map chat_of (getMessages after_question 1))
     = JObj [(''summary'', JStr ''The customer asks about passwords.'')]"
  by code_simp

lemma user_question_id: "m_id user_question = 2"
  by code_simp

subsection \<open>A message before any conversation\<close>

text \<open>
  C1. On a connection whose \<open>conversationId\<close> is still \<open>null\<close>, a frame of type \<open>message\<close>
  sends exactly one event, the \<open>error\<close> event with the message \<open>No active conversation\<close>,
  and returns the store and the connection state as they were: no Message is persisted
  and the message map is unchanged. A connection is in that state after any sequence of
  frames that contains no \<open>start_conversation\<close> frame, whatever the store was when it
  opened.
\<close>

theorem message_before_start_yields_one_error:
  "(conversationId st = None \<and> frame_type rt data = Some (JStr ''message'') \<longrightarrow>
      on_message rt gw t1 t2 st s data = (st, s, [ErrorEvent ''No active conversation'']))
 \<and> ((\<forall>f\<in>set earlier. frame_type rt (fr_data f) \<noteq> Some (JStr ''start_conversation''))
      \<and> frame_type rt data = Some (JStr ''message'') \<longrightarrow>
      on_message rt gw t1 t2 (fst (run rt earlier channel_open s0))
          (fst (snd (run rt earlier channel_open s0))) data
        = (fst (run rt earlier channel_open s0), fst (snd (run rt earlier channel_open s0)),
           [ErrorEvent ''No active conversation'']))"
proof -
  have direct: "on_message rt gw t1 t2 st s data = (st, s, [ErrorEvent ''No active conversation''])"
    if "conversationId st = None" and "frame_type rt data = Some (JStr ''message'')" for st s
    using on_message_message[OF that(2), of gw t1 t2 st s] handle_message_unbound[OF that(1)]
    by auto
  have "conversationId (fst (run rt earlier channel_open s0)) = None"
    if "\<forall>f\<in>set earlier. frame_type rt (fr_data f) \<noteq> Some (JStr ''start_conversation'')"
    using run_stays_unbound[OF that, of channel_open s0] by (simp add: channel_open_def)
  then show ?thesis
    using direct by blast
qed

theorem message_before_start_yields_one_error_witness:
  "on_message node model 2000 3000 channel_open storage message_frame
     = (channel_open, storage, [ErrorEvent ''No active conversation''])
 \<and> on_message node model 2000 3000 (fst (run node typing_only channel_open storage))
       (fst (snd (run node typing_only channel_open storage))) message_frame
     = (fst (run node typing_only channel_open storage),
        fst (snd (run node typing_only channel_open storage)),
        [ErrorEvent ''No active conversation''])"
proof -
  have unbound: "conversationId channel_open = None"
    by (simp add: channel_open_def)
  have earlier:
    "\<forall>f\<in>set typing_only. frame_type node (fr_data f) \<noteq> Some (JStr ''start_conversation'')"
    by (simp add: typing_only_def type_typing)
  show ?thesis
    using message_before_start_yields_one_error
            [where st = channel_open and rt = node and data = message_frame and gw = model
               and ?t1.0 = 2000 and ?t2.0 = 3000 and s = storage and earlier = typing_only
               and ?s0.0 = storage]
      unbound earlier type_message
    by simp
qed

subsection \<open>A reply that fails\<close>

text \<open>
  C9. On a bound connection, when the inbound message has been validated and persisted
  and \<open>generateResponse\<close> then throws, the handler has sent the echo of the user message
  and the typing event and sends one error event after them; the store it leaves is the
  store right after the user message was persisted. That message is in the message map,
  the conversations (and so the summary and context memory of the Conversation record)
  are as before the frame, and the store differs from the one before the frame: the
  handling is not atomic. Only the connection's own \<open>contextMemory\<close> variable has been
  refreshed.
\<close>

theorem failed_reply_keeps_user_message:
  "conversationId st = Some cid \<and> cid \<noteq> 0
   \<and> JSON_parse rt data = Some msg \<and> property msg ''type'' = Inr (JStr ''message'')
   \<and> property msg ''payload'' = Inr pl \<and> message_content rt pl = Inr (JStr content)
   \<and> createMessage s (inbound_message cid content pl) t1 = (userMessage, s1)
   \<and> generateResponse rt gw (map chat_of (getMessages s1 cid)) (getFAQs s1 None)
        (updateConversationContext gw (map chat_of (getMessages s1 cid))) (m_language userMessage)
       = Inl e
   \<longrightarrow>
     on_message rt gw t1 t2 st s data
       = (st\<lparr>contextMemory := updateConversationContext gw (map chat_of (getMessages s1 cid))\<rparr>,
          s1,
          [MessageEvent userMessage None, Typing, ErrorEvent (message_of e)])
   \<and> map_of (messages s1) (m_id userMessage) = Some userMessage
   \<and> m_conversationId userMessage = cid \<and> m_role userMessage = ''user''
   \<and> m_content userMessage = JStr content
   \<and> conversations s1 = conversations s
   \<and> s1 \<noteq> s"
proof (intro impI)
  assume a: "conversationId st = Some cid \<and> cid \<noteq> 0
   \<and> JSON_parse rt data = Some msg \<and> property msg ''type'' = Inr (JStr ''message'')
   \<and> property msg ''payload'' = Inr pl \<and> message_content rt pl = Inr (JStr content)
   \<and> createMessage s (inbound_message cid content pl) t1 = (userMessage, s1)
   \<and> generateResponse rt gw (map chat_of (getMessages s1 cid)) (getFAQs s1 None)
        (updateConversationContext gw (map chat_of (getMessages s1 cid))) (m_language userMessage)
       = Inl e"
  have dispatch: "on_message rt gw t1 t2 st s data = handle_message rt gw t1 t2 st s msg"
    using a by (simp add: on_message_def)
  have handled: "handle_message rt gw t1 t2 st s msg
       = (st\<lparr>contextMemory := updateConversationContext gw (map chat_of (getMessages s1 cid))\<rparr>,
          s1,
          [MessageEvent userMessage None, Typing, ErrorEvent (message_of e)])"
    using a by (simp add: handle_message_def Let_def handleWebSocketError_def)
  have created: "userMessage = fst (createMessage s (inbound_message cid content pl) t1)"
    "s1 = snd (createMessage s (inbound_message cid content pl) t1)"
    using a by simp_all
  have stored: "map_of (messages s1) (m_id userMessage) = Some userMessage"
    unfolding created by (simp add: createMessage_def Let_def update_conv')
  have fields: "m_conversationId userMessage = cid \<and> m_role userMessage = ''user''
      \<and> m_content userMessage = JStr content"
    unfolding created by (simp add: createMessage_def Let_def inbound_message_def)
  have convs: "conversations s1 = conversations s"
    unfolding created by (simp add: createMessage_def Let_def)
  have "id_message (currentIds s1) = id_message (currentIds s) + 1"
    unfolding created by (simp add: createMessage_def Let_def)
  then have changed: "s1 \<noteq> s"
    by auto
  show "on_message rt gw t1 t2 st s data
       = (st\<lparr>contextMemory := updateConversationContext gw (map chat_of (getMessages s1 cid))\<rparr>,
          s1,
          [MessageEvent userMessage None, Typing, ErrorEvent (message_of e)])
   \<and> map_of (messages s1) (m_id userMessage) = Some userMessage
   \<and> m_conversationId userMessage = cid \<and> m_role userMessage = ''user''
   \<and> m_content userMessage = JStr content
   \<and> conversations s1 = conversations s
   \<and> s1 \<noteq> s"
    using dispatch handled stored fields convs changed by simp
qed

theorem failed_reply_keeps_user_message_witness:
  "on_message node model_reply_down 2000 3000 bound_channel bound_store message_frame
     = (bound_channel
          \<lparr>contextMemory := JObj [(''summary'', JStr ''The customer asks about passwords.'')]\<rparr>,
        after_question,
        [MessageEvent user_question None, Typing, ErrorEvent ''Request timed out.''])
 \<and> map_of (messages after_question) 2 = Some user_question
 \<and> m_role user_question = ''user''
 \<and> m_content user_question = JStr ''How do I reset my password?''
 \<and> conversations after_question = conversations bound_store
 \<and> after_question \<noteq> bound_store"
proof -
  have made: "createMessage bound_store
      (inbound_message 1 ''How do I reset my password?'' question_payload) 2000
      = (user_question, after_question)"
    by (simp add: user_question_def after_question_def)
  show ?thesis
    using failed_reply_keeps_user_message
            [where st = bound_channel and cid = 1 and rt = node and data = message_frame
               and msg = message_json and pl = question_payload
               and content = "''How do I reset my password?''" and s = bound_store
               and ?t1.0 = 2000 and ?t2.0 = 3000 and userMessage = user_question
               and ?s1.0 = after_question and gw = model_reply_down
               and e = "Error ''Request timed out.''"]
      bound_to_1 parse_message_frame message_frame_parts made reply_times_out
    by (simp add: summary_value user_question_id)
qed

end
